theory Spec2Isabelle
  imports Main "HOL-Library.Word"
begin

unbundle bit_operations_syntax

section \<open>Proof-of-work consensus core: data model\<close>

text \<open>
  The embedding follows \<^verbatim>\<open>src/pow.cpp\<close> and \<^verbatim>\<open>src/primitives/block.cpp\<close>.
  C++ \<^verbatim>\<open>int\<close> and \<^verbatim>\<open>int64_t\<close> values are modelled as unbounded \<open>int\<close>: signed
  overflow is undefined in C++, so no wrap-around exists to be modelled; the unsigned
  32-bit and 256-bit quantities are words, whose arithmetic wraps.
  Every abnormal end of a call (a failed \<^verbatim>\<open>assert\<close>, a division by zero) is a value
  of type \<open>error\<close>.
\<close>

datatype error = AssertionFailed | DivisionByZero

type_synonym uint256 = "256 word"
type_synonym arith_uint256 = "256 word"
type_synonym addr = nat

text \<open>\<^verbatim>\<open>Consensus::Params\<close>: the fields read by \<^verbatim>\<open>pow.cpp\<close>.\<close>

record Params =
  MultiAlgoForkHeight :: int
  FirstTimespanChangeHeight :: int
  DifficultyChangeForkHeight :: int
  MultiAlgoTimespanForkHeight :: int
  powLimit :: uint256
  nPowOriginalTargetTimespan :: int
  nPowTargetTimespan :: int
  nPowTargetSpacing :: int
  fPowAllowMinDifficultyBlocks :: bool
  fPowNoRetargeting :: bool
  nMultiAlgoNum :: int
  nMultiAlgoTimespan :: int
  nMultiAlgoTimespanV2 :: int
  nMultiAlgoAveragingInterval :: int
  nMultiAlgoAveragingIntervalV2 :: int
  nMultiAlgoMaxAdjustUp :: int
  nMultiAlgoMaxAdjustUpV2 :: int
  nMultiAlgoMaxAdjustDown :: int
  nMultiAlgoMaxAdjustDownV2 :: int
  nMultiAlgoLocalTargetAdjustment :: int

text \<open>
  Modelled from the spec: \<^verbatim>\<open>CBlockIndex\<close>, one node of the chain index, whose class is
  declared in \<^verbatim>\<open>chain.h\<close>. \<open>pprev\<close> is the pointer to the predecessor (\<open>None\<close> is the
  null pointer); \<open>nHeight\<close>, \<open>nTime\<close> and \<open>nBits\<close> are the fields that \<^verbatim>\<open>pow.cpp\<close> reads.
  The member functions \<^verbatim>\<open>GetMedianTimePast()\<close> and \<^verbatim>\<open>GetAlgo()\<close> of a node are the node's
  attributes "median-time-past" and "block-version-derived algorithm tag" of section 3,
  held here in the fields \<open>nMedianTimePast\<close> and \<open>nAlgo\<close>.
\<close>

record CBlockIndex =
  pprev :: "addr option"
  nHeight :: int
  nTime :: "32 word"
  nBits :: "32 word"
  nMedianTimePast :: int
  nAlgo :: int

text \<open>\<^verbatim>\<open>CBlockHeader\<close>: the fields of a candidate header read by the retarget.\<close>

record CBlockHeader =
  hVersion :: "32 word"
  hTime :: "32 word"

text \<open>The chain index is an arena: every address holds a node.\<close>

type_synonym chain_index = "addr \<Rightarrow> CBlockIndex"

text \<open>
  Modelled from the spec: \<^verbatim>\<open>GetBlockTime()\<close> of a node and of a header, the block time as
  a signed 64-bit number.
\<close>

definition GetBlockTime :: "CBlockIndex \<Rightarrow> int" where
  "GetBlockTime b = uint (nTime b)"

definition GetBlockTime_header :: "CBlockHeader \<Rightarrow> int" where
  "GetBlockTime_header h = uint (hTime h)"

text \<open>C++ integer division and remainder truncate towards zero.\<close>

definition cdiv :: "int \<Rightarrow> int \<Rightarrow> int" where
  "cdiv a b = sgn a * sgn b * (\<bar>a\<bar> div \<bar>b\<bar>)"

definition crem :: "int \<Rightarrow> int \<Rightarrow> int" where
  "crem a b = a - b * cdiv a b"

section \<open>Target encoding\<close>

text \<open>
  Modelled from the spec: \<^verbatim>\<open>bits()\<close> of the class \<^verbatim>\<open>arith_uint256\<close>, which is declared in
  \<^verbatim>\<open>arith_uint256.h\<close>: the bit length of an expanded target, 0 for the target 0.
\<close>

fun bits_nat :: "nat \<Rightarrow> nat" where
  "bits_nat n = (if n = 0 then 0 else Suc (bits_nat (n div 2)))"

declare bits_nat.simps [simp del]

definition bits :: "arith_uint256 \<Rightarrow> nat" where
  "bits bn = bits_nat (unat bn)"

text \<open>
  Modelled from the spec: \<^verbatim>\<open>SetCompact\<close>, the decoder of section 4.1. The top byte is the
  exponent, the low 23 bits the mantissa, bit 23 the sign. The result is the expanded
  target and the flags negative and overflow.
\<close>

definition SetCompact :: "32 word \<Rightarrow> arith_uint256 \<times> bool \<times> bool" where
  "SetCompact nCompact =
     (let nSize = unat (drop_bit 24 nCompact);
          nWord = nCompact AND 0x007fffff;
          bn = (if nSize \<le> 3 then ucast (drop_bit (8 * (3 - nSize)) nWord)
                else push_bit (8 * (nSize - 3)) (ucast nWord));
          fNegative = (nWord \<noteq> 0 \<and> nCompact AND 0x00800000 \<noteq> 0);
          fOverflow = (nSize > 34 \<or> (nSize > 33 \<and> nWord > 0xff)
                         \<or> (nSize > 32 \<and> nWord > 0xffff))
      in (bn, fNegative, fOverflow))"

text \<open>
  Modelled from the spec: \<^verbatim>\<open>GetCompact\<close>, the encoder of section 4.1: the least exponent
  for which the mantissa keeps the sign bit clear, the mantissa truncated.
\<close>

definition GetCompact :: "arith_uint256 \<Rightarrow> 32 word" where
  "GetCompact bn =
     (let nSize = (bits bn + 7) div 8;
          nCompact = (if nSize \<le> 3 then push_bit (8 * (3 - nSize)) (ucast bn)
                      else ucast (drop_bit (8 * (nSize - 3)) bn)) :: 32 word;
          carry = (nCompact AND 0x00800000 \<noteq> 0);
          nCompact' = (if carry then drop_bit 8 nCompact else nCompact);
          nSize' = (if carry then nSize + 1 else nSize)
      in nCompact' OR push_bit 24 (of_nat nSize'))"

text \<open>
  Modelled from the spec: \<^verbatim>\<open>UintToArith256\<close> reads the 32 bytes of a \<^verbatim>\<open>uint256\<close> as a
  256-bit integer; both are the same word here.
\<close>

definition UintToArith256 :: "uint256 \<Rightarrow> arith_uint256" where
  "UintToArith256 h = h"

text \<open>
  Modelled from the spec: \<^verbatim>\<open>operator*=\<close> and \<^verbatim>\<open>operator/=\<close> of \<^verbatim>\<open>arith_uint256\<close>, the
  multiplication and the division of an expanded target by a signed 64-bit scalar. The
  product wraps at 256 bits; a division by zero ends the call abnormally.
\<close>

definition mul_scalar :: "arith_uint256 \<Rightarrow> int \<Rightarrow> arith_uint256" where
  "mul_scalar bn x = bn * word_of_int x"

definition div_scalar :: "arith_uint256 \<Rightarrow> int \<Rightarrow> error + arith_uint256" where
  "div_scalar bn x =
     (if (word_of_int x :: arith_uint256) = 0 then Inl DivisionByZero
      else Inr (bn div word_of_int x))"

section \<open>Proof-of-work verification\<close>

text \<open>\<^verbatim>\<open>CheckProofOfWork\<close>, \<^verbatim>\<open>pow.cpp\<close> lines 217-234.\<close>

definition CheckProofOfWork :: "uint256 \<Rightarrow> 32 word \<Rightarrow> Params \<Rightarrow> bool" where
  "CheckProofOfWork hash nbits params =
     (case SetCompact nbits of (bnTarget, fNegative, fOverflow) \<Rightarrow>
        if fNegative \<or> bnTarget = 0 \<or> fOverflow
             \<or> bnTarget > UintToArith256 (powLimit params)
        then False
        else if UintToArith256 hash > bnTarget then False
        else True)"

section \<open>Algorithm names\<close>

text \<open>
  The enumerators \<^verbatim>\<open>ALGO_*\<close> are declared in \<^verbatim>\<open>primitives/block.h\<close>; their values are
  parameters of the model.
\<close>

record algo_codes =
  ALGO_SHA256D :: int
  ALGO_SCRYPT :: int
  ALGO_GROESTL :: int
  ALGO_SKEIN :: int
  ALGO_QUBIT :: int

text \<open>\<^verbatim>\<open>GetAlgoName\<close>, \<^verbatim>\<open>block.cpp\<close> lines 82-97.\<close>

definition GetAlgoName :: "algo_codes \<Rightarrow> int \<Rightarrow> string" where
  "GetAlgoName ac algo =
     (if algo = ALGO_SHA256D ac then ''sha256d''
      else if algo = ALGO_SCRYPT ac then ''scrypt''
      else if algo = ALGO_GROESTL ac then ''groestl''
      else if algo = ALGO_SKEIN ac then ''skein''
      else if algo = ALGO_QUBIT ac then ''qubit''
      else ''unknown'')"

text \<open>\<^verbatim>\<open>::tolower\<close> in the C locale.\<close>

definition tolower :: "char \<Rightarrow> char" where
  "tolower c =
     (if (65::nat) \<le> of_char c \<and> of_char c \<le> (90::nat)
      then char_of (of_char c + (32::nat)) else c)"

text \<open>\<^verbatim>\<open>GetAlgoByName\<close>, \<^verbatim>\<open>block.cpp\<close> lines 99-113.\<close>

definition GetAlgoByName :: "algo_codes \<Rightarrow> string \<Rightarrow> int \<Rightarrow> int" where
  "GetAlgoByName ac strAlgo fallback =
     (let s = map tolower strAlgo in
      if s = ''sha'' \<or> s = ''sha256'' \<or> s = ''sha256d'' then ALGO_SHA256D ac
      else if s = ''scrypt'' then ALGO_SCRYPT ac
      else if s = ''groestl'' then ALGO_GROESTL ac
      else if s = ''skein'' then ALGO_SKEIN ac
      else if s = ''qubit'' then ALGO_QUBIT ac
      else fallback)"

section \<open>Algorithm selection\<close>

text \<open>
  The masks \<^verbatim>\<open>BLOCK_VERSION_*\<close> are declared in \<^verbatim>\<open>primitives/block.h\<close> as well and
  are parameters too.
\<close>

record version_codes =
  BLOCK_VERSION_ALGO :: "32 word"
  BLOCK_VERSION_SCRYPT :: "32 word"
  BLOCK_VERSION_SHA256D :: "32 word"
  BLOCK_VERSION_GROESTL :: "32 word"
  BLOCK_VERSION_SKEIN :: "32 word"
  BLOCK_VERSION_QUBIT :: "32 word"

text \<open>\<^verbatim>\<open>CBlockHeader::GetAlgo\<close>, \<^verbatim>\<open>block.cpp\<close> lines 24-41.\<close>

definition GetAlgo :: "algo_codes \<Rightarrow> version_codes \<Rightarrow> CBlockHeader \<Rightarrow> int" where
  "GetAlgo ac vc h =
     (let sel = hVersion h AND BLOCK_VERSION_ALGO vc in
      if sel = 1 then ALGO_SCRYPT ac
      else if sel = BLOCK_VERSION_SCRYPT vc then ALGO_SCRYPT ac
      else if sel = BLOCK_VERSION_SHA256D vc then ALGO_SHA256D ac
      else if sel = BLOCK_VERSION_GROESTL vc then ALGO_GROESTL ac
      else if sel = BLOCK_VERSION_SKEIN vc then ALGO_SKEIN ac
      else if sel = BLOCK_VERSION_QUBIT vc then ALGO_QUBIT ac
      else ALGO_SCRYPT ac)"

text \<open>
  Modelled from the spec: \<^verbatim>\<open>NUM_ALGOS\<close>, the enumerator that closes the list of the five
  algorithms in \<^verbatim>\<open>primitives/block.h\<close>.
\<close>

definition NUM_ALGOS :: int where
  "NUM_ALGOS = 5"

section \<open>Chain index traversal\<close>

text \<open>
  The counted loops of \<^verbatim>\<open>pow.cpp\<close> lines 67-69 and 102-105:
  \<^verbatim>\<open>for (int i = 0; pindexFirst && i < n; i++) pindexFirst = pindexFirst->pprev;\<close>
\<close>

fun walk_back :: "chain_index \<Rightarrow> addr option \<Rightarrow> nat \<Rightarrow> addr option" where
  "walk_back idx pindexFirst 0 = pindexFirst"
| "walk_back idx None (Suc n) = None"
| "walk_back idx (Some a) (Suc n) = walk_back idx (pprev (idx a)) n"

text \<open>
  The test of \<^verbatim>\<open>pow.cpp\<close> lines 243-245, which marks a special min-difficulty block.
  \<^verbatim>\<open>nTime\<close> is unsigned 32-bit and is widened to 64 bits before the sum.
\<close>

definition min_difficulty_gap :: "chain_index \<Rightarrow> Params \<Rightarrow> int \<Rightarrow> addr \<Rightarrow> bool" where
  "min_difficulty_gap idx params nMultiAlgoTargetSpacing a =
     (fPowAllowMinDifficultyBlocks params \<and>
      (case pprev (idx a) of
         None \<Rightarrow> False
       | Some b \<Rightarrow> uint (nTime (idx a)) > uint (nTime (idx b)) + nMultiAlgoTargetSpacing * 2))"

text \<open>
  The nodes at which the loop of \<^verbatim>\<open>GetLastBlockIndexForAlgo\<close> returns: neither of the two
  \<^verbatim>\<open>continue\<close> statements is taken.
\<close>

definition eligible :: "chain_index \<Rightarrow> Params \<Rightarrow> int \<Rightarrow> int \<Rightarrow> addr \<Rightarrow> bool" where
  "eligible idx params algo nMultiAlgoTargetSpacing a =
     (nAlgo (idx a) = algo \<and> \<not> min_difficulty_gap idx params nMultiAlgoTargetSpacing a)"

text \<open>
  \<^verbatim>\<open>GetLastBlockIndexForAlgo\<close>, \<^verbatim>\<open>pow.cpp\<close> lines 236-252. The loop follows \<open>pprev\<close> for as
  long as the chain goes on; a call that never returns has the value \<open>None\<close>, a call that
  returns the pointer \<open>p\<close> has the value \<open>Some p\<close>.
\<close>

partial_function (option) GetLastBlockIndexForAlgo ::
  "chain_index \<Rightarrow> addr option \<Rightarrow> Params \<Rightarrow> int \<Rightarrow> int \<Rightarrow> addr option option" where
  "GetLastBlockIndexForAlgo idx pindex params algo nMultiAlgoTargetSpacing =
     (case pindex of
        None \<Rightarrow> Some None
      | Some a \<Rightarrow>
          if nAlgo (idx a) \<noteq> algo
          then GetLastBlockIndexForAlgo idx (pprev (idx a)) params algo nMultiAlgoTargetSpacing
          else if min_difficulty_gap idx params nMultiAlgoTargetSpacing a
          then GetLastBlockIndexForAlgo idx (pprev (idx a)) params algo nMultiAlgoTargetSpacing
          else Some (Some a))"

text \<open>
  The loop of \<^verbatim>\<open>pow.cpp\<close> lines 50-52, which looks for the last block that is not a
  special min-difficulty block.
\<close>

partial_function (option) last_non_min_difficulty ::
  "chain_index \<Rightarrow> int \<Rightarrow> 32 word \<Rightarrow> addr \<Rightarrow> addr option" where
  "last_non_min_difficulty idx nDifficultyAdjustmentInterval nProofOfWorkLimit a =
     (case pprev (idx a) of
        None \<Rightarrow> Some a
      | Some b \<Rightarrow>
          if crem (nHeight (idx a)) nDifficultyAdjustmentInterval \<noteq> 0
               \<and> nBits (idx a) = nProofOfWorkLimit
          then last_non_min_difficulty idx nDifficultyAdjustmentInterval nProofOfWorkLimit b
          else Some a)"

text \<open>
  A finite chain of predecessor links from a pointer down to a root with no predecessor:
  \<open>chain_path idx p as\<close> lists the nodes met from \<open>p\<close> on, nearest first.
\<close>

inductive chain_path :: "chain_index \<Rightarrow> addr option \<Rightarrow> addr list \<Rightarrow> bool" where
  chain_root: "chain_path idx None []"
| chain_link: "chain_path idx (pprev (idx a)) as \<Longrightarrow> chain_path idx (Some a) (a # as)"

section \<open>Retargeting\<close>

text \<open>
  The overflow guard of \<^verbatim>\<open>pow.cpp\<close> lines 149 and 203:
  \<^verbatim>\<open>bnNew.bits() > bnPowLimit.bits() - 1\<close>, computed on \<^verbatim>\<open>unsigned int\<close>.
\<close>

definition needs_shift :: "arith_uint256 \<Rightarrow> arith_uint256 \<Rightarrow> bool" where
  "needs_shift bnNew bnPowLimit =
     (int (bits bnNew) > (int (bits bnPowLimit) - 1) mod 2 ^ 32)"

text \<open>\<^verbatim>\<open>CalculateNextWorkRequired\<close>, \<^verbatim>\<open>pow.cpp\<close> lines 179-215.\<close>

definition legacy_target_timespan :: "CBlockIndex \<Rightarrow> Params \<Rightarrow> int" where
  "legacy_target_timespan pindexLast params =
     (if nHeight pindexLast < FirstTimespanChangeHeight params
      then nPowOriginalTargetTimespan params else nPowTargetTimespan params)"

definition legacy_actual_timespan :: "CBlockIndex \<Rightarrow> int \<Rightarrow> int \<Rightarrow> int" where
  "legacy_actual_timespan pindexLast nFirstBlockTime nPowTargetTimespan' =
     (let nActualTimespan = GetBlockTime pindexLast - nFirstBlockTime;
          nActualTimespan = (if nActualTimespan < cdiv nPowTargetTimespan' 4
                             then cdiv nPowTargetTimespan' 4 else nActualTimespan);
          nActualTimespan = (if nActualTimespan > nPowTargetTimespan' * 4
                             then nPowTargetTimespan' * 4 else nActualTimespan)
      in nActualTimespan)"

definition CalculateNextWorkRequired :: "CBlockIndex \<Rightarrow> int \<Rightarrow> Params \<Rightarrow> error + 32 word" where
  "CalculateNextWorkRequired pindexLast nFirstBlockTime params =
     (if fPowNoRetargeting params then Inr (nBits pindexLast)
      else
        let nPowTargetTimespan' = legacy_target_timespan pindexLast params;
            nActualTimespan = legacy_actual_timespan pindexLast nFirstBlockTime nPowTargetTimespan';
            bnNew = fst (SetCompact (nBits pindexLast));
            bnPowLimit = UintToArith256 (powLimit params);
            fShift = needs_shift bnNew bnPowLimit;
            bnNew = (if fShift then drop_bit 1 bnNew else bnNew);
            bnNew = mul_scalar bnNew nActualTimespan
        in case div_scalar bnNew nPowTargetTimespan' of
             Inl e \<Rightarrow> Inl e
           | Inr bnNew \<Rightarrow>
               let bnNew = (if fShift then push_bit 1 bnNew else bnNew);
                   bnNew = (if bnNew > bnPowLimit then bnPowLimit else bnNew)
               in Inr (GetCompact bnNew))"

text \<open>
  The dampening of \<^verbatim>\<open>pow.cpp\<close> lines 119-132. The local variable
  \<^verbatim>\<open>nMultiAlgoAveragingTargetTimespan\<close> is declared without a value; \<open>unassigned\<close> is what
  a read finds there before the first assignment. The result is the pair of
  \<^verbatim>\<open>nActualTimespan\<close> and \<^verbatim>\<open>nMultiAlgoAveragingTargetTimespan\<close> after line 132.
\<close>

definition dampen :: "Params \<Rightarrow> int \<Rightarrow> int \<Rightarrow> int \<Rightarrow> int \<Rightarrow> int \<times> int" where
  "dampen params height nMultiAlgoTargetSpacing unassigned nActualTimespan =
     (if height < DifficultyChangeForkHeight params then
        if height \<ge> 222524 then
          (unassigned + cdiv (nActualTimespan - unassigned) 4,
           nMultiAlgoAveragingInterval params * nMultiAlgoTargetSpacing)
        else
          (let avg = nMultiAlgoAveragingInterval params * nMultiAlgoTargetSpacing
           in (avg + cdiv (nActualTimespan - avg) 4, avg))
      else
        (let avg = nMultiAlgoAveragingInterval params * nMultiAlgoTargetSpacing
         in (avg + cdiv (nActualTimespan - avg) 4, avg)))"

text \<open>The limits of \<^verbatim>\<open>pow.cpp\<close> lines 134-140.\<close>

definition limit_timespan :: "Params \<Rightarrow> bool \<Rightarrow> int \<Rightarrow> int \<Rightarrow> int" where
  "limit_timespan params fDiffChange avg nActualTimespan =
     (let nMinActualTimespan =
            cdiv (avg * (100 - (if fDiffChange then nMultiAlgoMaxAdjustUpV2 params
                                else nMultiAlgoMaxAdjustUp params))) 100;
          nMaxActualTimespan =
            cdiv (avg * (100 + (if fDiffChange then nMultiAlgoMaxAdjustDownV2 params
                                else nMultiAlgoMaxAdjustDown params))) 100;
          nActualTimespan = (if nActualTimespan < nMinActualTimespan
                             then nMinActualTimespan else nActualTimespan);
          nActualTimespan = (if nActualTimespan > nMaxActualTimespan
                             then nMaxActualTimespan else nActualTimespan)
      in nActualTimespan)"

text \<open>The two loops of the per-algorithm retarget, \<^verbatim>\<open>pow.cpp\<close> lines 159-162 and 164-167.\<close>

fun make_harder :: "nat \<Rightarrow> int \<Rightarrow> arith_uint256 \<Rightarrow> error + arith_uint256" where
  "make_harder 0 adj bnNew = Inr bnNew"
| "make_harder (Suc n) adj bnNew =
     (case div_scalar (mul_scalar bnNew 100) (100 + adj) of
        Inl e \<Rightarrow> Inl e
      | Inr bnNew \<Rightarrow> make_harder n adj bnNew)"

fun make_easier :: "nat \<Rightarrow> int \<Rightarrow> arith_uint256 \<Rightarrow> error + arith_uint256" where
  "make_easier 0 adj bnNew = Inr bnNew"
| "make_easier (Suc n) adj bnNew =
     (case div_scalar (mul_scalar bnNew (100 + adj)) 100 of
        Inl e \<Rightarrow> Inl e
      | Inr bnNew \<Rightarrow> make_easier n adj bnNew)"

text \<open>The per-algorithm retarget, \<^verbatim>\<open>pow.cpp\<close> lines 156-168.\<close>

definition per_algo_retarget :: "Params \<Rightarrow> int \<Rightarrow> arith_uint256 \<Rightarrow> error + arith_uint256" where
  "per_algo_retarget params nAdjustments bnNew =
     (if nAdjustments > 0
      then make_harder (nat nAdjustments) (nMultiAlgoLocalTargetAdjustment params) bnNew
      else if nAdjustments < 0
      then make_easier (nat (- nAdjustments)) (nMultiAlgoLocalTargetAdjustment params) bnNew
      else Inr bnNew)"

text \<open>
  The global retarget of \<^verbatim>\<open>pow.cpp\<close> lines 143-154, as a function of the values that
  \<^verbatim>\<open>nActualTimespan\<close> and \<^verbatim>\<open>nMultiAlgoAveragingTargetTimespan\<close> have at line 140. The
  result is the flag \<^verbatim>\<open>fShift\<close> and the value of \<^verbatim>\<open>bnNew\<close> after line 154.
\<close>

definition global_retarget ::
  "Params \<Rightarrow> CBlockIndex \<Rightarrow> int \<Rightarrow> int \<Rightarrow> error + (bool \<times> arith_uint256)" where
  "global_retarget params pindexPrevAlgo nActualTimespan nMultiAlgoAveragingTargetTimespan =
     (let bnNew = fst (SetCompact (nBits pindexPrevAlgo));
          bnPowLimit = UintToArith256 (powLimit params);
          fShift = needs_shift bnNew bnPowLimit;
          bnNew = (if fShift then drop_bit 1 bnNew else bnNew);
          bnNew = mul_scalar bnNew nActualTimespan
      in case div_scalar bnNew nMultiAlgoAveragingTargetTimespan of
           Inl e \<Rightarrow> Inl e
         | Inr bnNew \<Rightarrow> Inr (fShift, bnNew))"

text \<open>The end of the retarget, \<^verbatim>\<open>pow.cpp\<close> lines 170-176.\<close>

definition finish_retarget :: "Params \<Rightarrow> bool \<Rightarrow> arith_uint256 \<Rightarrow> 32 word" where
  "finish_retarget params fShift bnNew =
     (let bnPowLimit = UintToArith256 (powLimit params);
          bnNew = (if fShift then push_bit 1 bnNew else bnNew);
          bnNew = (if bnNew > bnPowLimit then bnPowLimit else bnNew)
      in GetCompact bnNew)"

text \<open>
  \<^verbatim>\<open>GetNextMultiAlgoWorkRequired\<close> from line 134 to its end, as a function of the values
  that \<^verbatim>\<open>nActualTimespan\<close> and \<^verbatim>\<open>nMultiAlgoAveragingTargetTimespan\<close> have after the
  dampening of lines 119-132.
\<close>

definition retarget_with_timespan ::
  "Params \<Rightarrow> CBlockIndex \<Rightarrow> CBlockIndex \<Rightarrow> int \<Rightarrow> int \<Rightarrow> error + 32 word" where
  "retarget_with_timespan params pindexLast pindexPrevAlgo nActualTimespan
       nMultiAlgoAveragingTargetTimespan =
     (let fDiffChange = (nHeight pindexLast \<ge> DifficultyChangeForkHeight params);
          nActualTimespan =
             limit_timespan params fDiffChange nMultiAlgoAveragingTargetTimespan nActualTimespan
      in case global_retarget params pindexPrevAlgo nActualTimespan
                nMultiAlgoAveragingTargetTimespan of
           Inl e \<Rightarrow> Inl e
         | Inr (fShift, bnNew) \<Rightarrow>
             let nAdjustments = nHeight pindexPrevAlgo + NUM_ALGOS - 1 - nHeight pindexLast
             in case per_algo_retarget params nAdjustments bnNew of
                  Inl e \<Rightarrow> Inl e
                | Inr bnNew \<Rightarrow> Inr (finish_retarget params fShift bnNew))"

text \<open>
  \<^verbatim>\<open>GetNextMultiAlgoWorkRequired\<close> from line 116 on, where \<open>pindexFirst\<close> and
  \<open>pindexPrevAlgo\<close> are known not to be null.
\<close>

definition multi_algo_retarget ::
  "Params \<Rightarrow> int \<Rightarrow> int \<Rightarrow> CBlockIndex \<Rightarrow> CBlockIndex \<Rightarrow> CBlockIndex \<Rightarrow> error + 32 word" where
  "multi_algo_retarget params unassigned nMultiAlgoTargetSpacing pindexLast pindexFirst pindexPrevAlgo =
     (let nActualTimespan = nMedianTimePast pindexLast - nMedianTimePast pindexFirst;
          (nActualTimespan, nMultiAlgoAveragingTargetTimespan) =
             dampen params (nHeight pindexLast) nMultiAlgoTargetSpacing unassigned nActualTimespan
      in retarget_with_timespan params pindexLast pindexPrevAlgo nActualTimespan
           nMultiAlgoAveragingTargetTimespan)"

text \<open>
  The number of links to walk back to the first block of the averaging window,
  \<^verbatim>\<open>pow.cpp\<close> line 103, and the per-algorithm target spacing, lines 107-108.
\<close>

definition averaging_window :: "CBlockIndex \<Rightarrow> Params \<Rightarrow> nat" where
  "averaging_window pindexLast params =
     nat (NUM_ALGOS * (if nHeight pindexLast \<ge> DifficultyChangeForkHeight params
                       then nMultiAlgoAveragingIntervalV2 params
                       else nMultiAlgoAveragingInterval params))"

definition multi_algo_target_spacing :: "CBlockIndex \<Rightarrow> Params \<Rightarrow> int" where
  "multi_algo_target_spacing pindexLast params =
     nMultiAlgoNum params *
       (if nHeight pindexLast < MultiAlgoTimespanForkHeight params
        then nMultiAlgoTimespan params else nMultiAlgoTimespanV2 params)"

text \<open>\<^verbatim>\<open>GetNextMultiAlgoWorkRequired\<close>, \<^verbatim>\<open>pow.cpp\<close> lines 79-177.\<close>

definition GetNextMultiAlgoWorkRequired ::
  "algo_codes \<Rightarrow> version_codes \<Rightarrow> chain_index \<Rightarrow> int \<Rightarrow> addr \<Rightarrow> CBlockHeader \<Rightarrow> Params
     \<Rightarrow> (error + 32 word) option" where
  "GetNextMultiAlgoWorkRequired ac vc idx unassigned pindexLast pblock params =
     (let algo = GetAlgo ac vc pblock;
          nProofOfWorkLimit = GetCompact (UintToArith256 (powLimit params));
          pindexFirst = walk_back idx (Some pindexLast) (averaging_window (idx pindexLast) params);
          nMultiAlgoTargetSpacing = multi_algo_target_spacing (idx pindexLast) params
      in case GetLastBlockIndexForAlgo idx (Some pindexLast) params algo nMultiAlgoTargetSpacing of
           None \<Rightarrow> None
         | Some pindexPrevAlgo \<Rightarrow>
             (case (pindexPrevAlgo, pindexFirst) of
                (Some p, Some f) \<Rightarrow>
                  Some (multi_algo_retarget params unassigned nMultiAlgoTargetSpacing
                          (idx pindexLast) (idx f) (idx p))
              | _ \<Rightarrow> Some (Inr nProofOfWorkLimit)))"

text \<open>
  \<^verbatim>\<open>GetNextWorkRequired\<close>, \<^verbatim>\<open>pow.cpp\<close> lines 24-77. A zero divisor in the integer
  division of line 34 or 36 or in the remainder of line 38 ends the call abnormally.
\<close>

definition legacy_interval :: "CBlockIndex \<Rightarrow> Params \<Rightarrow> int" where
  "legacy_interval pindexLast params =
     (if nHeight pindexLast + 1 < FirstTimespanChangeHeight params
      then cdiv (nPowOriginalTargetTimespan params) (nPowTargetSpacing params)
      else cdiv (nPowTargetTimespan params) (nPowTargetSpacing params))"

definition GetNextWorkRequired ::
  "algo_codes \<Rightarrow> version_codes \<Rightarrow> chain_index \<Rightarrow> int \<Rightarrow> addr option \<Rightarrow> CBlockHeader \<Rightarrow> Params
     \<Rightarrow> (error + 32 word) option" where
  "GetNextWorkRequired ac vc idx unassigned pindexLast pblock params =
     (case pindexLast of
        None \<Rightarrow> Some (Inl AssertionFailed)
      | Some l \<Rightarrow>
          if nHeight (idx l) + 1 < MultiAlgoForkHeight params then
            let nProofOfWorkLimit = GetCompact (UintToArith256 (powLimit params)) in
            if nPowTargetSpacing params = 0 then Some (Inl DivisionByZero)
            else
              let nDifficultyAdjustmentInterval = legacy_interval (idx l) params in
              if nDifficultyAdjustmentInterval = 0 then Some (Inl DivisionByZero)
              else if crem (nHeight (idx l) + 1) nDifficultyAdjustmentInterval \<noteq> 0 then
                if fPowAllowMinDifficultyBlocks params then
                  if GetBlockTime_header pblock
                       > GetBlockTime (idx l) + nPowTargetSpacing params * 2
                  then Some (Inr nProofOfWorkLimit)
                  else
                    (case last_non_min_difficulty idx nDifficultyAdjustmentInterval
                            nProofOfWorkLimit l of
                       None \<Rightarrow> None
                     | Some a \<Rightarrow> Some (Inr (nBits (idx a))))
                else Some (Inr (nBits (idx l)))
              else
                let blockstogoback =
                      (if nHeight (idx l) + 1 \<noteq> nDifficultyAdjustmentInterval
                       then nDifficultyAdjustmentInterval
                       else nDifficultyAdjustmentInterval - 1)
                in case walk_back idx (Some l) (nat blockstogoback) of
                     None \<Rightarrow> Some (Inl AssertionFailed)
                   | Some f \<Rightarrow>
                       Some (CalculateNextWorkRequired (idx l) (GetBlockTime (idx f)) params)
          else GetNextMultiAlgoWorkRequired ac vc idx unassigned l pblock params)"

section \<open>Definitions that follow the specification's words\<close>

text \<open>
  Section 4.2 of the specification: a node is skipped when minimum-difficulty blocks are
  allowed and its time exceeds its predecessor's time by more than twice the target
  spacing.
\<close>

definition spec_skipped :: "chain_index \<Rightarrow> Params \<Rightarrow> int \<Rightarrow> addr \<Rightarrow> bool" where
  "spec_skipped idx params target_spacing a =
     (fPowAllowMinDifficultyBlocks params \<and>
      (\<exists>b. pprev (idx a) = Some b \<and>
           uint (nTime (idx a)) - uint (nTime (idx b)) > 2 * target_spacing))"

text \<open>
  The nearest node of the chain \<open>as\<close> (nearest first) that carries the algorithm and is
  not skipped.
\<close>

definition spec_last_block_for_algorithm ::
  "chain_index \<Rightarrow> addr list \<Rightarrow> Params \<Rightarrow> int \<Rightarrow> int \<Rightarrow> addr option" where
  "spec_last_block_for_algorithm idx as params algo target_spacing =
     find (\<lambda>a. nAlgo (idx a) = algo \<and> \<not> spec_skipped idx params target_spacing a) as"

text \<open>Section 4.4 step 7 of the specification: the documented dampening formula.\<close>

definition documented_dampening :: "int \<Rightarrow> int \<Rightarrow> int" where
  "documented_dampening averaging_target_timespan actual_timespan =
     averaging_target_timespan + cdiv (actual_timespan - averaging_target_timespan) 4"

text \<open>
  Section 4.4 step 10 of the specification: one truncating multiply-divide that tightens
  the target, and one that loosens it.
\<close>

definition harder_step :: "int \<Rightarrow> arith_uint256 \<Rightarrow> arith_uint256" where
  "harder_step adj b = (b * 100) div word_of_int (100 + adj)"

definition easier_step :: "int \<Rightarrow> arith_uint256 \<Rightarrow> arith_uint256" where
  "easier_step adj b = (b * word_of_int (100 + adj)) div 100"

text \<open>
  Section 8 of the specification: a synthetic chain, listed from the tip down to the root,
  with heights that count down to 0 at the root and block times exactly \<open>spacing\<close>
  apart.
\<close>

fun on_schedule :: "chain_index \<Rightarrow> int \<Rightarrow> addr list \<Rightarrow> bool" where
  "on_schedule idx spacing [] = True"
| "on_schedule idx spacing [a] = (nHeight (idx a) = 0)"
| "on_schedule idx spacing (a # b # as) =
     (nHeight (idx a) = nHeight (idx b) + 1
      \<and> GetBlockTime (idx a) = GetBlockTime (idx b) + spacing
      \<and> on_schedule idx spacing (b # as))"

section \<open>Example data\<close>

definition example_params :: Params where
  "example_params =
     \<lparr> MultiAlgoForkHeight = 1000000, FirstTimespanChangeHeight = 0,
       DifficultyChangeForkHeight = 2000000, MultiAlgoTimespanForkHeight = 3000000,
       powLimit = 2 ^ 236 - 1,
       nPowOriginalTargetTimespan = 3600, nPowTargetTimespan = 1800, nPowTargetSpacing = 180,
       fPowAllowMinDifficultyBlocks = False, fPowNoRetargeting = False,
       nMultiAlgoNum = 5, nMultiAlgoTimespan = 180, nMultiAlgoTimespanV2 = 36,
       nMultiAlgoAveragingInterval = 60, nMultiAlgoAveragingIntervalV2 = 2,
       nMultiAlgoMaxAdjustUp = 20, nMultiAlgoMaxAdjustUpV2 = 4,
       nMultiAlgoMaxAdjustDown = 40, nMultiAlgoMaxAdjustDownV2 = 4,
       nMultiAlgoLocalTargetAdjustment = 4 \<rparr>"

text \<open>The same parameters with the timespan change at height 10.\<close>

definition fork_params :: Params where
  "fork_params = example_params\<lparr>FirstTimespanChangeHeight := 10\<rparr>"

text \<open>The target that the compact value \<open>0x1e0ffff0\<close> encodes.\<close>

definition example_target :: arith_uint256 where
  "example_target = 0xffff0 * 2 ^ 216"

definition example_algo_codes :: algo_codes where
  "example_algo_codes =
     \<lparr> ALGO_SHA256D = 0, ALGO_SCRYPT = 1, ALGO_GROESTL = 2, ALGO_SKEIN = 3, ALGO_QUBIT = 4 \<rparr>"

definition example_version_codes :: version_codes where
  "example_version_codes =
     \<lparr> BLOCK_VERSION_ALGO = 0xE00, BLOCK_VERSION_SCRYPT = 0x200, BLOCK_VERSION_SHA256D = 0x400,
       BLOCK_VERSION_GROESTL = 0x600, BLOCK_VERSION_SKEIN = 0x800, BLOCK_VERSION_QUBIT = 0xA00 \<rparr>"

text \<open>
  A chain of blocks at heights 0, 1, 2, ... mined 180 seconds apart, all with the same
  algorithm and the same compact target; node \<open>a\<close> sits at address \<open>a\<close>.
\<close>

definition regular_chain :: chain_index where
  "regular_chain a =
     \<lparr> pprev = (if a = 0 then None else Some (a - 1)), nHeight = int a,
       nTime = word_of_nat (1000 + 180 * a), nBits = 0x1e0ffff0,
       nMedianTimePast = 1000 + 180 * int a, nAlgo = 1 \<rparr>"

text \<open>A chain of four blocks; block 3 comes late and block 2 has another algorithm.\<close>

definition gap_chain :: chain_index where
  "gap_chain a =
     \<lparr> pprev = (if a = 0 then None else Some (a - 1)), nHeight = int a,
       nTime = (if a = 3 then 9000 else word_of_nat (1000 + 180 * a)), nBits = 0x1e0ffff0,
       nMedianTimePast = 1000 + 180 * int a, nAlgo = (if a = 2 then 0 else 1) \<rparr>"

text \<open>
  A chain of eight blocks for the multi-algorithm retarget, with heights \<open>base\<close> to
  \<open>base + 7\<close> and median times 180 seconds apart. Block 2 has algorithm 3 and encodes the
  target 100, block 3 has algorithm 1, block 5 has algorithm 2 and encodes the target 3,
  the others have algorithm 0.
\<close>

definition multi_chain :: "int \<Rightarrow> chain_index" where
  "multi_chain base a =
     \<lparr> pprev = (if a = 0 then None else Some (a - 1)), nHeight = base + int a,
       nTime = word_of_nat (1000 + 180 * a),
       nBits = (if a = 2 then 0x02006400 else if a = 5 then 0x01030000 else 0x1e0ffff0),
       nMedianTimePast = 1000 + 180 * int a,
       nAlgo = (if a = 2 then 3 else if a = 3 then 1 else if a = 5 then 2 else 0) \<rparr>"

text \<open>The example parameters with an averaging interval of one block per algorithm.\<close>

definition multi_params :: Params where
  "multi_params = example_params\<lparr>nMultiAlgoAveragingInterval := 1\<rparr>"

definition scrypt_header :: CBlockHeader where
  "scrypt_header = \<lparr> hVersion = 0x2, hTime = 5000 \<rparr>"

definition groestl_header :: CBlockHeader where
  "groestl_header = \<lparr> hVersion = 0x602, hTime = 5000 \<rparr>"

definition skein_header :: CBlockHeader where
  "skein_header = \<lparr> hVersion = 0x802, hTime = 5000 \<rparr>"

definition sha_header :: CBlockHeader where
  "sha_header = \<lparr> hVersion = 0x402, hTime = 5000 \<rparr>"

section \<open>Properties of the algorithm names\<close>

lemma tolower_names:
  "map tolower ''sha256d'' = ''sha256d''"
  "map tolower ''scrypt'' = ''scrypt''"
  "map tolower ''groestl'' = ''groestl''"
  "map tolower ''skein'' = ''skein''"
  "map tolower ''qubit'' = ''qubit''"
  by (simp_all add: tolower_def)

lemma GetAlgoByName_names:
  "GetAlgoByName ac ''sha256d'' fb = ALGO_SHA256D ac"
  "GetAlgoByName ac ''scrypt'' fb = ALGO_SCRYPT ac"
  "GetAlgoByName ac ''groestl'' fb = ALGO_GROESTL ac"
  "GetAlgoByName ac ''skein'' fb = ALGO_SKEIN ac"
  "GetAlgoByName ac ''qubit'' fb = ALGO_QUBIT ac"
  unfolding GetAlgoByName_def tolower_names by simp_all

text \<open>
  Claim C9. For each of the five algorithm codes and any fallback value, the name given by
  \<open>GetAlgoName\<close> is mapped back by \<open>GetAlgoByName\<close> to the code, and \<open>GetAlgoName\<close> does
  not answer \<open>''unknown''\<close> for any of the five.
\<close>

theorem algo_name_roundtrip:
  "GetAlgoByName ac (GetAlgoName ac (ALGO_SHA256D ac)) fb = ALGO_SHA256D ac
   \<and> GetAlgoByName ac (GetAlgoName ac (ALGO_SCRYPT ac)) fb = ALGO_SCRYPT ac
   \<and> GetAlgoByName ac (GetAlgoName ac (ALGO_GROESTL ac)) fb = ALGO_GROESTL ac
   \<and> GetAlgoByName ac (GetAlgoName ac (ALGO_SKEIN ac)) fb = ALGO_SKEIN ac
   \<and> GetAlgoByName ac (GetAlgoName ac (ALGO_QUBIT ac)) fb = ALGO_QUBIT ac
   \<and> GetAlgoName ac (ALGO_SHA256D ac) \<noteq> ''unknown''
   \<and> GetAlgoName ac (ALGO_SCRYPT ac) \<noteq> ''unknown''
   \<and> GetAlgoName ac (ALGO_GROESTL ac) \<noteq> ''unknown''
   \<and> GetAlgoName ac (ALGO_SKEIN ac) \<noteq> ''unknown''
   \<and> GetAlgoName ac (ALGO_QUBIT ac) \<noteq> ''unknown''"
  by (simp add: GetAlgoName_def GetAlgoByName_names)

section \<open>Proof-of-work verification: properties\<close>

lemma SetCompact_example: "SetCompact 0x1e0ffff0 = (example_target, False, False)"
  by (simp add: SetCompact_def example_target_def)

lemma example_limit: "UintToArith256 (powLimit example_params) = 2 ^ 236 - 1"
  by (simp add: UintToArith256_def example_params_def)

text \<open>
  Claim C1. With the target, the negative flag and the overflow flag decoded from the
  compact bits: \<open>CheckProofOfWork\<close> answers false whenever the target is negative, zero,
  overflowed or above the network's limit; otherwise it answers false exactly when the
  hash, read as a 256-bit integer, is greater than the target, and true when the hash is
  at most the target.
\<close>

theorem CheckProofOfWork_cases:
  assumes "SetCompact nbits = (bnTarget, fNegative, fOverflow)"
  shows "((fNegative \<or> bnTarget = 0 \<or> fOverflow \<or> bnTarget > UintToArith256 (powLimit params))
            \<longrightarrow> \<not> CheckProofOfWork hash nbits params)
       \<and> (\<not> (fNegative \<or> bnTarget = 0 \<or> fOverflow \<or> bnTarget > UintToArith256 (powLimit params))
            \<longrightarrow> ((\<not> CheckProofOfWork hash nbits params) \<longleftrightarrow> UintToArith256 hash > bnTarget)
              \<and> (UintToArith256 hash \<le> bnTarget \<longrightarrow> CheckProofOfWork hash nbits params))"
  using assms by (auto simp: CheckProofOfWork_def)

text \<open>
  The theorem at work: a limit below the target, a negative target, a zero target and an
  overflowed target are rejected; a hash equal to the target is accepted and the next
  greater hash is rejected.
\<close>

theorem CheckProofOfWork_cases_witness:
  "\<not> CheckProofOfWork 5 0x1e0ffff0 (example_params\<lparr>powLimit := 1\<rparr>)
   \<and> \<not> CheckProofOfWork 5 0x1e800001 example_params
   \<and> \<not> CheckProofOfWork 5 0 example_params
   \<and> \<not> CheckProofOfWork 5 0x23000001 example_params
   \<and> CheckProofOfWork example_target 0x1e0ffff0 example_params
   \<and> \<not> CheckProofOfWork (example_target + 1) 0x1e0ffff0 example_params"
proof -
  have a: "SetCompact 0x1e800001 = (2 ^ 216, True, False)"
    by (simp add: SetCompact_def)
  have b: "SetCompact 0 = (0, False, False)"
    by (simp add: SetCompact_def)
  have c: "SetCompact 0x23000001 = (0, False, True)"
    by (simp add: SetCompact_def)
  have l: "UintToArith256 (powLimit (example_params\<lparr>powLimit := 1\<rparr>)) = 1"
    by (simp add: UintToArith256_def)
  have pl: "powLimit example_params = 2 ^ 236 - 1"
    by (simp add: example_params_def)
  have t: "example_target \<noteq> 0" "example_target > 1" "\<not> example_target > 2 ^ 236 - 1"
    "example_target + 1 > example_target"
    by (simp_all add: example_target_def)
  have "\<not> CheckProofOfWork 5 0x1e0ffff0 (example_params\<lparr>powLimit := 1\<rparr>)"
    using CheckProofOfWork_cases [OF SetCompact_example, of "example_params\<lparr>powLimit := 1\<rparr>" 5] t
    unfolding l by blast
  moreover have "\<not> CheckProofOfWork 5 0x1e800001 example_params"
    using CheckProofOfWork_cases [OF a, of example_params 5] by blast
  moreover have "\<not> CheckProofOfWork 5 0 example_params"
    using CheckProofOfWork_cases [OF b, of example_params 5] by blast
  moreover have "\<not> CheckProofOfWork 5 0x23000001 example_params"
    using CheckProofOfWork_cases [OF c, of example_params 5] by blast
  moreover have "CheckProofOfWork example_target 0x1e0ffff0 example_params"
    using CheckProofOfWork_cases [OF SetCompact_example, of example_params example_target] t
    unfolding UintToArith256_def pl by simp
  moreover have "\<not> CheckProofOfWork (example_target + 1) 0x1e0ffff0 example_params"
    using CheckProofOfWork_cases [OF SetCompact_example, of example_params "example_target + 1"] t
    unfolding UintToArith256_def pl by simp
  ultimately show ?thesis by blast
qed

section \<open>Chain index traversal: properties\<close>

lemma walk_back_None [simp]: "walk_back idx None n = None"
  by (cases n) simp_all

lemma chain_step:
  "pprev (idx a) = q \<Longrightarrow> chain_path idx q as \<Longrightarrow> chain_path idx (Some a) (a # as)"
  by (auto intro: chain_path.intros)

lemma walk_back_None_chain_path:
  "walk_back idx p n = None \<Longrightarrow> \<exists>as. chain_path idx p as"
proof (induction idx p n rule: walk_back.induct)
  case (1 idx pindexFirst)
  then show ?case by (auto intro: chain_path.intros)
next
  case (2 idx n)
  then show ?case by (auto intro: chain_path.intros)
next
  case (3 idx a n)
  then show ?case by (auto intro: chain_path.intros)
qed

text \<open>On a finite chain the loop of \<open>GetLastBlockIndexForAlgo\<close> is a search in a list.\<close>

lemma GetLastBlockIndexForAlgo_find:
  "chain_path idx p as \<Longrightarrow>
     GetLastBlockIndexForAlgo idx p params algo sp = Some (find (eligible idx params algo sp) as)"
proof (induction rule: chain_path.induct)
  case (chain_root idx)
  show ?case by (subst GetLastBlockIndexForAlgo.simps) simp
next
  case (chain_link idx a as)
  show ?case
  proof (cases "eligible idx params algo sp a")
    case True
    then have "nAlgo (idx a) = algo" "\<not> min_difficulty_gap idx params sp a"
      by (simp_all add: eligible_def)
    with True show ?thesis
      by (subst GetLastBlockIndexForAlgo.simps) simp
  next
    case False
    then have "nAlgo (idx a) \<noteq> algo \<or> min_difficulty_gap idx params sp a"
      by (simp add: eligible_def)
    with False chain_link.IH show ?thesis
      by (subst GetLastBlockIndexForAlgo.simps) auto
  qed
qed

lemma min_difficulty_gap_spec:
  "min_difficulty_gap idx params sp a = spec_skipped idx params sp a"
  by (cases "pprev (idx a)") (auto simp: min_difficulty_gap_def spec_skipped_def)

lemma eligible_spec:
  "eligible idx params algo sp = (\<lambda>a. nAlgo (idx a) = algo \<and> \<not> spec_skipped idx params sp a)"
  by (simp add: fun_eq_iff eligible_def min_difficulty_gap_spec)

lemma last_non_min_difficulty_returns:
  "chain_path idx p as \<Longrightarrow> p = Some a \<Longrightarrow>
     \<exists>r. last_non_min_difficulty idx n lim a = Some r"
proof (induction arbitrary: a rule: chain_path.induct)
  case (chain_root idx)
  then show ?case by simp
next
  case (chain_link idx b as)
  then have [simp]: "a = b" by simp
  show ?case
  proof (cases "pprev (idx b)")
    case None
    then show ?thesis by (subst last_non_min_difficulty.simps) simp
  next
    case (Some c)
    with chain_link.IH [of c] obtain r where "last_non_min_difficulty idx n lim c = Some r"
      by auto
    with Some show ?thesis by (subst last_non_min_difficulty.simps) simp
  qed
qed

subsection \<open>The example chains\<close>

lemma pprev_regular_chain [simp]:
  "pprev (regular_chain a) = (if a = 0 then None else Some (a - 1))"
  by (simp add: regular_chain_def)

lemma regular_chain_path: "chain_path regular_chain (Some n) (rev [0..<Suc n])"
proof (induction n)
  case 0
  show ?case by (auto intro!: chain_step chain_root)
next
  case (Suc n)
  have "pprev (regular_chain (Suc n)) = Some n" by simp
  from chain_step [OF this Suc] show ?case by simp
qed

lemma walk_back_regular_chain:
  "walk_back regular_chain (Some a) n = (if n \<le> a then Some (a - n) else None)"
proof (induction n arbitrary: a)
  case 0
  show ?case by simp
next
  case (Suc n)
  show ?case
  proof (cases a)
    case 0
    then show ?thesis by simp
  next
    case (Suc b)
    then show ?thesis using Suc.IH [of b] by simp
  qed
qed

lemma gap_chain_path: "chain_path gap_chain (Some 3) [3, 2, 1, 0]"
proof -
  have p0: "chain_path gap_chain (Some 0) [0]"
    by (rule chain_step [OF _ chain_root]) (simp add: gap_chain_def)
  have p1: "chain_path gap_chain (Some 1) [1, 0]"
    by (rule chain_step [OF _ p0]) (simp add: gap_chain_def)
  have p2: "chain_path gap_chain (Some 2) [2, 1, 0]"
    by (rule chain_step [OF _ p1]) (simp add: gap_chain_def)
  show ?thesis
    by (rule chain_step [OF _ p2]) (simp add: gap_chain_def)
qed

lemma GetCompact_example_limit:
  "GetCompact (UintToArith256 (powLimit example_params)) = 0x1e0fffff"
  by (simp add: GetCompact_def bits_def bits_nat.simps example_params_def UintToArith256_def)

subsection \<open>The last block of an algorithm\<close>

text \<open>
  Claim C6. On a finite chain \<open>as\<close> from the starting node down to the root,
  \<open>GetLastBlockIndexForAlgo\<close> returns the nearest node at or before the starting node that
  carries the requested algorithm and is not skipped, where a node is skipped when
  minimum-difficulty blocks are allowed and its time exceeds its predecessor's time by
  more than twice the target spacing; it returns the null pointer exactly when the chain
  has no such node.
\<close>

theorem GetLastBlockIndexForAlgo_nearest:
  assumes "chain_path idx pindex as"
  shows "GetLastBlockIndexForAlgo idx pindex params algo sp
           = Some (spec_last_block_for_algorithm idx as params algo sp)
       \<and> (GetLastBlockIndexForAlgo idx pindex params algo sp = Some None
            \<longleftrightarrow> \<not> (\<exists>a\<in>set as. nAlgo (idx a) = algo \<and> \<not> spec_skipped idx params sp a))
       \<and> (\<forall>a. GetLastBlockIndexForAlgo idx pindex params algo sp = Some (Some a)
            \<longrightarrow> (\<exists>i<length as. as ! i = a \<and> nAlgo (idx a) = algo \<and> \<not> spec_skipped idx params sp a
                   \<and> (\<forall>j<i. \<not> (nAlgo (idx (as ! j)) = algo
                                \<and> \<not> spec_skipped idx params sp (as ! j)))))"
proof -
  have eq: "GetLastBlockIndexForAlgo idx pindex params algo sp
           = Some (spec_last_block_for_algorithm idx as params algo sp)"
    using GetLastBlockIndexForAlgo_find [OF assms]
    by (simp add: spec_last_block_for_algorithm_def eligible_spec)
  show ?thesis
    unfolding eq by (auto simp: spec_last_block_for_algorithm_def find_None_iff find_Some_iff)
qed

text \<open>
  On the four-block chain: with minimum-difficulty blocks allowed the late block 3 is
  skipped and block 1 is found; without, block 3 itself; an unused algorithm gives null.
\<close>

theorem GetLastBlockIndexForAlgo_nearest_witness:
  "GetLastBlockIndexForAlgo gap_chain (Some 3) (example_params\<lparr>fPowAllowMinDifficultyBlocks := True\<rparr>) 1 900
     = Some (Some 1)
   \<and> GetLastBlockIndexForAlgo gap_chain (Some 3) example_params 1 900 = Some (Some 3)
   \<and> GetLastBlockIndexForAlgo gap_chain (Some 3) example_params 4 900 = Some None"
  using GetLastBlockIndexForAlgo_nearest [OF gap_chain_path, of "example_params\<lparr>fPowAllowMinDifficultyBlocks := True\<rparr>" 1 900]
    GetLastBlockIndexForAlgo_nearest [OF gap_chain_path, of example_params 1 900]
    GetLastBlockIndexForAlgo_nearest [OF gap_chain_path, of example_params 4 900]
  by (simp add: spec_last_block_for_algorithm_def spec_skipped_def gap_chain_def example_params_def)

text \<open>
  Claim C10. A node without predecessor whose algorithm is the requested one is returned
  by \<open>GetLastBlockIndexForAlgo\<close> when the search reaches it, whatever the parameters
  (minimum-difficulty blocks allowed or not), the target spacing and the node's time.
\<close>

theorem root_returned_unconditionally:
  assumes "pprev (idx a) = None" and "nAlgo (idx a) = algo"
  shows "GetLastBlockIndexForAlgo idx (Some a) params algo sp = Some (Some a)"
  using assms by (subst GetLastBlockIndexForAlgo.simps) (simp add: min_difficulty_gap_def)

theorem root_returned_unconditionally_witness:
  "GetLastBlockIndexForAlgo gap_chain (Some 0)
     (example_params\<lparr>fPowAllowMinDifficultyBlocks := True\<rparr>) 1 0 = Some (Some 0)"
  by (rule root_returned_unconditionally) (simp_all add: gap_chain_def)

section \<open>Termination\<close>

lemma GetNextMultiAlgoWorkRequired_returns:
  assumes "chain_path idx (Some l) as"
  shows "\<exists>r. GetNextMultiAlgoWorkRequired ac vc idx u l pblock params = Some r"
  by (simp add: GetNextMultiAlgoWorkRequired_def Let_def GetLastBlockIndexForAlgo_find [OF assms]
        split: option.split)

lemma GetNextWorkRequired_returns:
  assumes "chain_path idx pindexLast as"
  shows "\<exists>r. GetNextWorkRequired ac vc idx u pindexLast pblock params = Some r"
proof (cases pindexLast)
  case None
  then show ?thesis by (simp add: GetNextWorkRequired_def)
next
  case (Some l)
  with assms have p: "chain_path idx (Some l) as" by simp
  obtain a where a: "last_non_min_difficulty idx (legacy_interval (idx l) params)
       (GetCompact (UintToArith256 (powLimit params))) l = Some a"
    using last_non_min_difficulty_returns [OF p refl] by blast
  obtain r where r: "GetNextMultiAlgoWorkRequired ac vc idx u l pblock params = Some r"
    using GetNextMultiAlgoWorkRequired_returns [OF p] by blast
  show ?thesis
    by (simp add: GetNextWorkRequired_def Some Let_def a r split: option.split)
qed

text \<open>
  Claim C8. When the predecessor links from the tip form a finite chain that ends at a
  root without predecessor, every call of \<open>GetLastBlockIndexForAlgo\<close>, of
  \<open>GetNextWorkRequired\<close> and of \<open>GetNextMultiAlgoWorkRequired\<close> returns (a target or an
  abnormal end, never an endless walk). \<open>CalculateNextWorkRequired\<close> and
  \<open>CheckProofOfWork\<close> contain no loop over the chain: their embeddings are plain
  definitions without recursion, which have a value at every argument, and the first is
  part of \<open>GetNextWorkRequired\<close>.
\<close>

theorem retarget_terminates:
  assumes "chain_path idx pindexLast as"
  shows "(\<exists>r. GetLastBlockIndexForAlgo idx pindexLast params algo sp = Some r)
       \<and> (\<exists>r. GetNextWorkRequired ac vc idx u pindexLast pblock params = Some r)
       \<and> (\<forall>l. pindexLast = Some l
             \<longrightarrow> (\<exists>r. GetNextMultiAlgoWorkRequired ac vc idx u l pblock params = Some r))
       \<and> (\<exists>r. CalculateNextWorkRequired b nFirstBlockTime params = r)
       \<and> (\<exists>r. CheckProofOfWork hash nbits params = r)"
  using GetLastBlockIndexForAlgo_find [OF assms] GetNextWorkRequired_returns [OF assms]
    GetNextMultiAlgoWorkRequired_returns assms
  by blast

theorem retarget_terminates_witness:
  "(\<exists>r. GetLastBlockIndexForAlgo regular_chain (Some 9) example_params 0 900 = Some r)
   \<and> (\<exists>r. GetNextWorkRequired example_algo_codes example_version_codes regular_chain 0 (Some 9)
            sha_header example_params = Some r)
   \<and> (\<exists>r. GetNextMultiAlgoWorkRequired example_algo_codes example_version_codes regular_chain 0 9
            sha_header example_params = Some r)"
  using retarget_terminates [OF regular_chain_path [of 9], of example_params 0 900
      example_algo_codes example_version_codes 0 sha_header]
  by simp

section \<open>Multi-algorithm retarget: properties\<close>

text \<open>
  Claim C5. If \<open>GetLastBlockIndexForAlgo\<close> finds no previous block of the candidate's
  algorithm, or the walk back to the start of the averaging window runs off the chain,
  \<open>GetNextMultiAlgoWorkRequired\<close> returns the compact form of the network's target limit;
  in particular it does so on a finite chain none of whose blocks has the candidate's
  algorithm.
\<close>

theorem multi_algo_fallback:
  "(GetLastBlockIndexForAlgo idx (Some l) params (GetAlgo ac vc pblock)
        (multi_algo_target_spacing (idx l) params) = Some None
      \<or> walk_back idx (Some l) (averaging_window (idx l) params) = None
    \<longrightarrow> GetNextMultiAlgoWorkRequired ac vc idx u l pblock params
          = Some (Inr (GetCompact (UintToArith256 (powLimit params)))))
   \<and> (chain_path idx (Some l) as \<and> (\<forall>a\<in>set as. nAlgo (idx a) \<noteq> GetAlgo ac vc pblock)
    \<longrightarrow> GetNextMultiAlgoWorkRequired ac vc idx u l pblock params
          = Some (Inr (GetCompact (UintToArith256 (powLimit params)))))"
proof (intro conjI impI)
  assume h: "GetLastBlockIndexForAlgo idx (Some l) params (GetAlgo ac vc pblock)
        (multi_algo_target_spacing (idx l) params) = Some None
      \<or> walk_back idx (Some l) (averaging_window (idx l) params) = None"
  show "GetNextMultiAlgoWorkRequired ac vc idx u l pblock params
          = Some (Inr (GetCompact (UintToArith256 (powLimit params))))"
  proof (cases "walk_back idx (Some l) (averaging_window (idx l) params)")
    case None
    then obtain bs where "chain_path idx (Some l) bs"
      using walk_back_None_chain_path by blast
    from GetLastBlockIndexForAlgo_find [OF this] None show ?thesis
      by (simp add: GetNextMultiAlgoWorkRequired_def Let_def split: option.split)
  next
    case (Some f)
    with h show ?thesis
      by (simp add: GetNextMultiAlgoWorkRequired_def Let_def)
  qed
next
  assume h: "chain_path idx (Some l) as \<and> (\<forall>a\<in>set as. nAlgo (idx a) \<noteq> GetAlgo ac vc pblock)"
  then have "find (eligible idx params (GetAlgo ac vc pblock)
        (multi_algo_target_spacing (idx l) params)) as = None"
    by (auto simp: find_None_iff eligible_def)
  with GetLastBlockIndexForAlgo_find [of idx "Some l" as] h
  show "GetNextMultiAlgoWorkRequired ac vc idx u l pblock params
          = Some (Inr (GetCompact (UintToArith256 (powLimit params))))"
    by (simp add: GetNextMultiAlgoWorkRequired_def Let_def)
qed

text \<open>
  Ten blocks of one algorithm and a candidate of another: first with a window of 300
  blocks, deeper than the chain, then with a window of 5 blocks, which the chain holds.
\<close>

theorem multi_algo_fallback_witness:
  "GetNextMultiAlgoWorkRequired example_algo_codes example_version_codes regular_chain 0 9
      sha_header example_params = Some (Inr 0x1e0fffff)
   \<and> GetNextMultiAlgoWorkRequired example_algo_codes example_version_codes regular_chain 0 9
      sha_header (example_params\<lparr>nMultiAlgoAveragingInterval := 1\<rparr>) = Some (Inr 0x1e0fffff)"
proof -
  have w: "walk_back regular_chain (Some 9) (averaging_window (regular_chain 9) example_params) = None"
    by (simp add: walk_back_regular_chain averaging_window_def NUM_ALGOS_def regular_chain_def
          example_params_def)
  have a: "GetAlgo example_algo_codes example_version_codes sha_header = 0"
    by (simp add: GetAlgo_def sha_header_def example_algo_codes_def example_version_codes_def)
  have n: "\<forall>a\<in>set (rev [0..<Suc 9]). nAlgo (regular_chain a)
             \<noteq> GetAlgo example_algo_codes example_version_codes sha_header"
    by (simp add: a regular_chain_def)
  have l: "powLimit (example_params\<lparr>nMultiAlgoAveragingInterval := 1\<rparr>) = powLimit example_params"
    by simp
  have "GetNextMultiAlgoWorkRequired example_algo_codes example_version_codes regular_chain 0 9
      sha_header example_params = Some (Inr 0x1e0fffff)"
    using multi_algo_fallback [of regular_chain 9 example_params example_algo_codes
        example_version_codes sha_header 0 "[]"] w
    unfolding GetCompact_example_limit by blast
  moreover have "GetNextMultiAlgoWorkRequired example_algo_codes example_version_codes regular_chain 0 9
      sha_header (example_params\<lparr>nMultiAlgoAveragingInterval := 1\<rparr>) = Some (Inr 0x1e0fffff)"
    using multi_algo_fallback [of regular_chain 9 "example_params\<lparr>nMultiAlgoAveragingInterval := 1\<rparr>"
        example_algo_codes example_version_codes sha_header 0 "rev [0..<Suc 9]"]
      regular_chain_path [of 9] n
    unfolding l GetCompact_example_limit by blast
  ultimately show ?thesis by blast
qed

subsection \<open>The per-algorithm retarget\<close>

lemma make_harder_funpow:
  assumes "(word_of_int (100 + adj) :: arith_uint256) \<noteq> 0"
  shows "make_harder n adj bn = Inr ((harder_step adj ^^ n) bn)"
proof (induction n arbitrary: bn)
  case 0
  show ?case by simp
next
  case (Suc n)
  have "div_scalar (mul_scalar bn 100) (100 + adj) = Inr (harder_step adj bn)"
    using assms by (simp add: div_scalar_def mul_scalar_def harder_step_def)
  with Suc.IH show ?case by (simp add: funpow_swap1)
qed

lemma make_easier_funpow:
  "make_easier n adj bn = Inr ((easier_step adj ^^ n) bn)"
proof (induction n arbitrary: bn)
  case 0
  show ?case by simp
next
  case (Suc n)
  have "div_scalar (mul_scalar bn (100 + adj)) 100 = Inr (easier_step adj bn)"
    by (simp add: div_scalar_def mul_scalar_def easier_step_def)
  with Suc.IH show ?case by (simp add: funpow_swap1)
qed

section \<open>Legacy retarget: properties\<close>

subsection \<open>Arithmetic\<close>

lemma cdiv_nonneg: "0 \<le> a \<Longrightarrow> 0 < b \<Longrightarrow> cdiv a b = a div b"
  by (cases "a = 0") (simp_all add: cdiv_def)

lemma crem_nonneg: "0 \<le> a \<Longrightarrow> 0 < b \<Longrightarrow> crem a b = a mod b"
  by (simp add: crem_def cdiv_nonneg minus_mult_div_eq_mod)

lemma unat_scalar:
  assumes "0 < T" "T < 2 ^ 256"
  shows "unat (word_of_int T :: arith_uint256) = nat T"
proof -
  have "uint (word_of_int T :: arith_uint256) = T"
    using assms by (simp add: uint_word_of_int take_bit_int_eq_self)
  then show ?thesis by (simp add: unat_eq_nat_uint)
qed

lemma mul_div_scalar_cancel:
  assumes "0 < T" and "T < 2 ^ 32" and "unat x * nat T < 2 ^ 256"
  shows "div_scalar (mul_scalar x T) T = Inr x"
proof -
  have "T < 2 ^ 256" using assms(2) by (rule less_trans) simp
  have uT: "unat (word_of_int T :: arith_uint256) = nat T"
    by (rule unat_scalar [OF assms(1) \<open>T < 2 ^ 256\<close>])
  have nz: "(word_of_int T :: arith_uint256) \<noteq> 0"
    using uT assms(1) by (auto simp: unat_eq_0 [symmetric])
  have "unat (x * word_of_int T) = unat x * nat T"
    using assms(3) uT by (simp add: unat_mult_lem [THEN iffD1])
  then have "unat ((x * word_of_int T) div word_of_int T) = unat x"
    using assms(1) by (simp add: unat_div uT)
  then have "(x * word_of_int T) div word_of_int T = x"
    by (simp add: word_unat_eq_iff)
  with nz show ?thesis by (simp add: div_scalar_def mul_scalar_def)
qed

lemma shift_roundtrip:
  fixes v :: arith_uint256
  assumes "even v"
  shows "push_bit 1 (drop_bit 1 v) = v"
  using assms bits_ident [of 1 v]
  by (simp add: take_bit_Suc_0 [simplified] take_bit_eq_mod even_iff_mod_2_eq_zero)

lemma unat_drop_bit_le:
  fixes v :: arith_uint256
  shows "unat (drop_bit 1 v) \<le> unat v"
  by (simp add: drop_bit_eq_div unat_div)

subsection \<open>Chains on schedule\<close>

lemma chain_path_Some:
  "chain_path idx (Some l) as \<Longrightarrow> \<exists>bs. as = l # bs"
  by (erule chain_path.cases) auto

lemma walk_back_nth:
  "chain_path idx p as \<Longrightarrow> n < length as \<Longrightarrow> walk_back idx p n = Some (as ! n)"
proof (induction arbitrary: n rule: chain_path.induct)
  case (chain_root idx)
  then show ?case by simp
next
  case (chain_link idx a as)
  then show ?case by (cases n) simp_all
qed

lemma on_schedule_height:
  "on_schedule idx sp as \<Longrightarrow> n < length as \<Longrightarrow>
     nHeight (idx (as ! n)) = int (length as) - 1 - int n"
proof (induction idx sp as arbitrary: n rule: on_schedule.induct)
  case (1 idx spacing)
  then show ?case by simp
next
  case (2 idx spacing a)
  then show ?case by simp
next
  case (3 idx spacing a b as)
  show ?case
  proof (cases n)
    case 0
    with 3 show ?thesis using "3.IH" [of 0] by simp
  next
    case (Suc m)
    with 3 show ?thesis using "3.IH" [of m] by simp
  qed
qed

lemma on_schedule_time:
  "on_schedule idx sp as \<Longrightarrow> n < length as \<Longrightarrow>
     GetBlockTime (idx (as ! 0)) = GetBlockTime (idx (as ! n)) + int n * sp"
proof (induction idx sp as arbitrary: n rule: on_schedule.induct)
  case (1 idx spacing)
  then show ?case by simp
next
  case (2 idx spacing a)
  then show ?case by simp
next
  case (3 idx spacing a b as)
  show ?case
  proof (cases n)
    case 0
    then show ?thesis by simp
  next
    case (Suc m)
    with 3 show ?thesis using "3.IH" [of m] by (simp add: algebra_simps)
  qed
qed

lemma regular_chain_fields [simp]:
  "nHeight (regular_chain a) = int a"
  "nBits (regular_chain a) = 0x1e0ffff0"
  "nTime (regular_chain a) = word_of_nat (1000 + 180 * a)"
  by (simp_all add: regular_chain_def)

lemma GetBlockTime_regular_chain:
  assumes "a \<le> 1000"
  shows "GetBlockTime (regular_chain a) = 1000 + 180 * int a"
proof -
  have "1000 + 180 * a < (2 :: nat) ^ 32" using assms by simp
  then have "unat (word_of_nat (1000 + 180 * a) :: 32 word) = 1000 + 180 * a"
    by (simp add: unat_of_nat del: of_nat_add of_nat_mult)
  then show ?thesis
    by (simp add: GetBlockTime_def uint_nat del: of_nat_add of_nat_mult)
qed

lemma on_schedule_regular_chain:
  "n \<le> 1000 \<Longrightarrow> on_schedule regular_chain 180 (rev [0..<Suc n])"
proof (induction n)
  case 0
  show ?case by simp
next
  case (Suc n)
  then have "on_schedule regular_chain 180 (n # rev [0..<n])" by simp
  moreover have "GetBlockTime (regular_chain (Suc n)) = GetBlockTime (regular_chain n) + 180"
    using Suc.prems by (simp add: GetBlockTime_regular_chain)
  ultimately show ?case by simp
qed

subsection \<open>The shared calculation\<close>

lemma legacy_actual_timespan_exact:
  assumes "0 < T" and "GetBlockTime pindexLast - nFirstBlockTime = T"
  shows "legacy_actual_timespan pindexLast nFirstBlockTime T = T"
proof -
  have "cdiv T 4 = T div 4" using assms(1) by (simp add: cdiv_nonneg)
  then show ?thesis using assms by (simp add: legacy_actual_timespan_def Let_def)
qed

lemma CalculateNextWorkRequired_stable:
  assumes T: "T = legacy_target_timespan pindexLast params" "0 < T" "T < 2 ^ 32"
    and actual: "GetBlockTime pindexLast - nFirstBlockTime = T"
    and canon: "GetCompact (fst (SetCompact (nBits pindexLast))) = nBits pindexLast"
    and le: "fst (SetCompact (nBits pindexLast)) \<le> UintToArith256 (powLimit params)"
    and lossless: "needs_shift (fst (SetCompact (nBits pindexLast))) (UintToArith256 (powLimit params))
                     \<longrightarrow> even (fst (SetCompact (nBits pindexLast)))"
    and fits: "unat (fst (SetCompact (nBits pindexLast))) * nat T < 2 ^ 256"
  shows "CalculateNextWorkRequired pindexLast nFirstBlockTime params = Inr (nBits pindexLast)"
proof (cases "fPowNoRetargeting params")
  case True
  then show ?thesis by (simp add: CalculateNextWorkRequired_def)
next
  case False
  define v where "v = fst (SetCompact (nBits pindexLast))"
  define lim where "lim = UintToArith256 (powLimit params)"
  define w where "w = (if needs_shift v lim then drop_bit 1 v else v)"
  have a: "legacy_actual_timespan pindexLast nFirstBlockTime T = T"
    by (rule legacy_actual_timespan_exact [OF T(2) actual])
  have "unat w \<le> unat v" using unat_drop_bit_le [of v] by (simp add: w_def)
  then have "unat w * nat T \<le> unat v * nat T" by (rule mult_le_mono1)
  also have "\<dots> < 2 ^ 256" using fits unfolding v_def .
  finally have "unat w * nat T < 2 ^ 256" .
  then have d: "div_scalar (mul_scalar w T) T = Inr w"
    by (rule mul_div_scalar_cancel [OF T(2) T(3)])
  have b: "(if needs_shift v lim then push_bit 1 w else w) = v"
    using lossless shift_roundtrip [of v] by (simp add: w_def v_def lim_def)
  have c: "\<not> v > lim" using le by (simp add: v_def lim_def)
  show ?thesis
    using False a b c d canon
    by (simp add: CalculateNextWorkRequired_def Let_def T(1) [symmetric]
          v_def [symmetric] lim_def [symmetric] w_def [symmetric])
qed

text \<open>
  The clamp of lines 191-194: for a timespan that is not negative the actual timespan
  ends in the interval from a quarter of the timespan to four times the timespan, and is
  the difference of the two block times when that lies in the interval.
\<close>

lemma legacy_actual_timespan_clamped:
  assumes "0 \<le> T"
  shows "cdiv T 4 \<le> legacy_actual_timespan pindexLast nFirstBlockTime T
       \<and> legacy_actual_timespan pindexLast nFirstBlockTime T \<le> T * 4
       \<and> (cdiv T 4 \<le> GetBlockTime pindexLast - nFirstBlockTime
            \<and> GetBlockTime pindexLast - nFirstBlockTime \<le> T * 4
          \<longrightarrow> legacy_actual_timespan pindexLast nFirstBlockTime T
                = GetBlockTime pindexLast - nFirstBlockTime)"
proof -
  have "cdiv T 4 = T div 4" using assms by (simp add: cdiv_nonneg)
  moreover have "T div 4 \<le> T * 4" using assms by linarith
  ultimately show ?thesis by (simp add: legacy_actual_timespan_def Let_def)
qed

lemma GetCompact_example: "GetCompact example_target = 0x1e0ffff0"
  by (simp add: GetCompact_def bits_def bits_nat.simps example_target_def)

lemma needs_shift_example:
  "needs_shift example_target (UintToArith256 (powLimit example_params))"
proof -
  have "bits example_target = 236"
    by (simp add: bits_def bits_nat.simps example_target_def)
  moreover have "bits (2 ^ 236 - 1) = 236"
    by (simp add: bits_def bits_nat.simps)
  ultimately show ?thesis
    by (simp add: needs_shift_def example_limit)
qed

lemma example_params_fields:
  "MultiAlgoForkHeight example_params = 1000000"
  "FirstTimespanChangeHeight example_params = 0"
  "nPowTargetTimespan example_params = 1800"
  "nPowOriginalTargetTimespan example_params = 3600"
  "nPowTargetSpacing example_params = 180"
  "fPowNoRetargeting example_params = False"
  "fPowAllowMinDifficultyBlocks example_params = False"
  by (simp_all add: example_params_def)

lemma CalculateNextWorkRequired_shifted:
  assumes "\<not> fPowNoRetargeting params"
    and "legacy_target_timespan pindexLast params = T"
    and "legacy_actual_timespan pindexLast first T = A"
    and "SetCompact (nBits pindexLast) = (v, fNegative, fOverflow)"
    and "needs_shift v (UintToArith256 (powLimit params))"
    and "div_scalar (mul_scalar (drop_bit 1 v) A) T = Inr r"
    and "\<not> push_bit 1 r > UintToArith256 (powLimit params)"
    and "GetCompact (push_bit 1 r) = c"
  shows "CalculateNextWorkRequired pindexLast first params = Inr c"
  using assms by (simp add: CalculateNextWorkRequired_def Let_def)

lemma CalculateNextWorkRequired_first_retarget:
  "CalculateNextWorkRequired (regular_chain 9) 1000 example_params = Inr 0x1e0e6658"
proof (rule CalculateNextWorkRequired_shifted [where T = 1800 and A = 1620
      and r = "471852 * 2 ^ 216"])
  show "\<not> fPowNoRetargeting example_params"
    by (simp add: example_params_fields)
  show "legacy_target_timespan (regular_chain 9) example_params = 1800"
    by (simp add: legacy_target_timespan_def example_params_fields)
  show "legacy_actual_timespan (regular_chain 9) 1000 1800 = 1620"
    by (simp add: legacy_actual_timespan_def GetBlockTime_regular_chain cdiv_def)
  show "SetCompact (nBits (regular_chain 9)) = (example_target, False, False)"
    by (simp add: SetCompact_example)
  show "needs_shift example_target (UintToArith256 (powLimit example_params))"
    by (rule needs_shift_example)
  show "div_scalar (mul_scalar (drop_bit 1 example_target) 1620) 1800 = Inr (471852 * 2 ^ 216)"
    by (simp add: div_scalar_def mul_scalar_def drop_bit_eq_div example_target_def)
  show "\<not> push_bit 1 (471852 * 2 ^ 216) > UintToArith256 (powLimit example_params)"
    unfolding example_limit by (simp add: push_bit_eq_mult)
  show "GetCompact (push_bit 1 (471852 * 2 ^ 216)) = 0x1e0e6658"
    by (simp add: GetCompact_def bits_def bits_nat.simps push_bit_eq_mult)
qed

text \<open>
  Claim C4, at the input where the code departs from it. The previous block has height 9
  and the timespan changes at height 10, so that the next height 10 is not below the
  change: \<open>GetNextWorkRequired\<close> takes the adjustment interval from the current timespan
  (1800), but \<open>CalculateNextWorkRequired\<close> tests the previous height 9 and takes the
  original timespan (3600). With an actual timespan of 1800 seconds the target is halved
  (\<open>0x1e07fff8\<close>) instead of staying at \<open>0x1e0ffff0\<close>.
\<close>

theorem timespan_selection_at_fork_height:
  "nHeight (regular_chain 9) + 1 = FirstTimespanChangeHeight fork_params
   \<and> legacy_interval (regular_chain 9) fork_params
       = cdiv (nPowTargetTimespan fork_params) (nPowTargetSpacing fork_params)
   \<and> legacy_target_timespan (regular_chain 9) fork_params = nPowOriginalTargetTimespan fork_params
   \<and> nPowOriginalTargetTimespan fork_params \<noteq> nPowTargetTimespan fork_params
   \<and> CalculateNextWorkRequired (regular_chain 9) 820 fork_params = Inr 0x1e07fff8"
proof -
  have f: "FirstTimespanChangeHeight fork_params = 10"
    "nPowTargetTimespan fork_params = 1800"
    "nPowOriginalTargetTimespan fork_params = 3600"
    "nPowTargetSpacing fork_params = 180"
    "fPowNoRetargeting fork_params = False"
    "powLimit fork_params = powLimit example_params"
    by (simp_all add: fork_params_def example_params_fields)
  have t: "legacy_target_timespan (regular_chain 9) fork_params = 3600"
    by (simp add: legacy_target_timespan_def f)
  have "CalculateNextWorkRequired (regular_chain 9) 820 fork_params = Inr 0x1e07fff8"
  proof (rule CalculateNextWorkRequired_shifted [where T = 3600 and A = 1800
        and r = "262140 * 2 ^ 216"])
    show "\<not> fPowNoRetargeting fork_params" by (simp add: f)
    show "legacy_target_timespan (regular_chain 9) fork_params = 3600" by (rule t)
    show "legacy_actual_timespan (regular_chain 9) 820 3600 = 1800"
      by (simp add: legacy_actual_timespan_def GetBlockTime_regular_chain cdiv_def)
    show "SetCompact (nBits (regular_chain 9)) = (example_target, False, False)"
      by (simp add: SetCompact_example)
    show "needs_shift example_target (UintToArith256 (powLimit fork_params))"
      unfolding f by (rule needs_shift_example)
    show "div_scalar (mul_scalar (drop_bit 1 example_target) 1800) 3600 = Inr (262140 * 2 ^ 216)"
      by (simp add: div_scalar_def mul_scalar_def drop_bit_eq_div example_target_def)
    show "\<not> push_bit 1 (262140 * 2 ^ 216) > UintToArith256 (powLimit fork_params)"
      unfolding f example_limit by (simp add: push_bit_eq_mult)
    show "GetCompact (push_bit 1 (262140 * 2 ^ 216)) = 0x1e07fff8"
      by (simp add: GetCompact_def bits_def bits_nat.simps push_bit_eq_mult)
  qed
  then show ?thesis
    by (simp add: t f legacy_interval_def)
qed

subsection \<open>On-schedule mining\<close>

text \<open>
  Claim C3 as stated fails in its own scenario: ten blocks at heights 0 to 9, 180 seconds
  apart, an adjustment interval of 10, the legacy path active. At next height 10, the
  first retarget after genesis, the code walks back only 9 blocks, the actual timespan is
  1620 seconds against a target timespan of 1800, and the result \<open>0x1e0e6658\<close> is not the
  previous block's \<open>0x1e0ffff0\<close>.
\<close>

theorem first_retarget_counterexample:
  "\<not> (chain_path regular_chain (Some 9) (rev [0..<Suc 9])
       \<and> on_schedule regular_chain (nPowTargetSpacing example_params) (rev [0..<Suc 9])
       \<and> nPowTargetSpacing example_params = 180
       \<and> MultiAlgoForkHeight example_params = 1000000
       \<and> FirstTimespanChangeHeight example_params = 0
       \<and> legacy_interval (regular_chain 9) example_params = 10
       \<longrightarrow> GetNextWorkRequired example_algo_codes example_version_codes regular_chain 0 (Some 9)
             sha_header example_params = Some (Inr (nBits (regular_chain 9))))"
proof -
  have i: "legacy_interval (regular_chain 9) example_params = 10"
    by (simp add: legacy_interval_def example_params_fields cdiv_def)
  have w: "walk_back regular_chain (Some 9) (nat 9) = Some 0"
    by (simp add: walk_back_regular_chain)
  have t: "GetBlockTime (regular_chain 0) = 1000"
    by (simp add: GetBlockTime_regular_chain)
  have "GetNextWorkRequired example_algo_codes example_version_codes regular_chain 0 (Some 9)
             sha_header example_params = Some (Inr 0x1e0e6658)"
    using w by (simp add: GetNextWorkRequired_def Let_def i example_params_fields crem_def cdiv_def
          t CalculateNextWorkRequired_first_retarget)
  then show ?thesis
    using regular_chain_path [of 9] on_schedule_regular_chain [of 9] i
    by (simp add: example_params_fields)
qed

text \<open>
  Claim C3, amended. Take a finite chain from the tip to the root that is on schedule
  (heights counting down to 0, block times exactly the target spacing apart), on the
  legacy path, with a positive target spacing that divides the target timespan \<open>T\<close>
  selected for the tip, \<open>0 < T < 2\<^sup>3\<^sup>2\<close>. Let the next height be a multiple of the
  adjustment interval \<open>T div spacing\<close> other than the interval itself (not the first
  retarget after genesis) and other than the timespan change height. Let the tip's compact
  bits be the encoding of their own target, a target not above the limit, whose lowest bit
  is clear if the overflow guard shifts it, and whose product with \<open>T\<close> fits 256 bits.
  Then \<open>GetNextWorkRequired\<close> returns the tip's compact bits unchanged.
\<close>

theorem legacy_retarget_on_schedule:
  assumes path: "chain_path idx (Some l) as"
    and sched: "on_schedule idx (nPowTargetSpacing params) as"
    and legacy: "nHeight (idx l) + 1 < MultiAlgoForkHeight params"
    and fork: "nHeight (idx l) + 1 \<noteq> FirstTimespanChangeHeight params"
    and T: "T = legacy_target_timespan (idx l) params" "0 < T" "T < 2 ^ 32"
    and sp: "0 < nPowTargetSpacing params" "nPowTargetSpacing params dvd T"
    and boundary: "(nHeight (idx l) + 1) mod (T div nPowTargetSpacing params) = 0"
    and notfirst: "nHeight (idx l) + 1 \<noteq> T div nPowTargetSpacing params"
    and canon: "GetCompact (fst (SetCompact (nBits (idx l)))) = nBits (idx l)"
    and le: "fst (SetCompact (nBits (idx l))) \<le> UintToArith256 (powLimit params)"
    and lossless: "needs_shift (fst (SetCompact (nBits (idx l)))) (UintToArith256 (powLimit params))
                     \<longrightarrow> even (fst (SetCompact (nBits (idx l))))"
    and fits: "unat (fst (SetCompact (nBits (idx l)))) * nat T < 2 ^ 256"
  shows "GetNextWorkRequired ac vc idx u (Some l) pblock params = Some (Inr (nBits (idx l)))"
proof -
  define s where "s = nPowTargetSpacing params"
  define k where "k = T div s"
  obtain bs where as: "as = l # bs" using chain_path_Some [OF path] by blast
  have h: "nHeight (idx l) = int (length as) - 1"
    using on_schedule_height [OF sched, of 0] as by simp
  have h0: "0 \<le> nHeight (idx l)" using h as by simp
  have Ts: "T = k * s" using sp(2) by (simp add: k_def s_def)
  have kpos: "0 < k"
    using T(2) sp(1) Ts by (simp add: s_def zero_less_mult_iff)
  have interval: "legacy_interval (idx l) params = k"
  proof -
    have "legacy_interval (idx l) params = cdiv T s"
      using fork by (auto simp: legacy_interval_def legacy_target_timespan_def T(1) s_def)
    also have "\<dots> = k" using T(2) sp(1) by (simp add: cdiv_nonneg k_def s_def)
    finally show ?thesis .
  qed
  have rem: "crem (nHeight (idx l) + 1) k = 0"
    using boundary h0 kpos by (simp add: crem_nonneg k_def s_def)
  obtain m where m: "nHeight (idx l) + 1 = k * m"
    using boundary by (auto simp: k_def s_def mod_eq_0_iff_dvd)
  have "0 < m" using m h0 kpos by (smt (verit) zero_less_mult_pos)
  moreover have "m \<noteq> 1" using m notfirst by (auto simp: k_def s_def)
  ultimately have "2 \<le> m" by simp
  then have "k * 2 \<le> k * m" using kpos by simp
  then have "k < int (length as)" using m h kpos by linarith
  then have klt: "nat k < length as" using kpos by (simp add: nat_less_iff)
  have wb: "walk_back idx (Some l) (nat k) = Some (as ! nat k)"
    by (rule walk_back_nth [OF path klt])
  have "GetBlockTime (idx (as ! 0)) = GetBlockTime (idx (as ! nat k)) + int (nat k) * s"
    using on_schedule_time [OF sched klt] by (simp add: s_def)
  then have actual: "GetBlockTime (idx l) - GetBlockTime (idx (as ! nat k)) = T"
    using as kpos Ts by simp
  have calc: "CalculateNextWorkRequired (idx l) (GetBlockTime (idx (as ! nat k))) params
                = Inr (nBits (idx l))"
    by (rule CalculateNextWorkRequired_stable [OF T actual canon le lossless fits])
  have ne: "nHeight (idx l) + 1 \<noteq> k" using notfirst by (simp add: k_def s_def)
  have s0: "nPowTargetSpacing params \<noteq> 0" using sp(1) by simp
  have k0: "k \<noteq> 0" using kpos by simp
  show ?thesis
    by (simp add: GetNextWorkRequired_def Let_def legacy interval rem ne s0 k0 wb calc)
qed

text \<open>Twenty blocks on schedule: the retarget at next height 20 keeps \<open>0x1e0ffff0\<close>.\<close>

theorem legacy_retarget_on_schedule_witness:
  "GetNextWorkRequired example_algo_codes example_version_codes regular_chain 0 (Some 19)
     sha_header example_params = Some (Inr 0x1e0ffff0)"
proof -
  have v: "fst (SetCompact (nBits (regular_chain 19))) = example_target"
    by (simp add: SetCompact_example)
  have "GetNextWorkRequired example_algo_codes example_version_codes regular_chain 0 (Some 19)
     sha_header example_params = Some (Inr (nBits (regular_chain 19)))"
  proof (rule legacy_retarget_on_schedule [where T = 1800 and as = "rev [0..<Suc 19]"])
    show "chain_path regular_chain (Some 19) (rev [0..<Suc 19])"
      by (rule regular_chain_path)
    show "on_schedule regular_chain (nPowTargetSpacing example_params) (rev [0..<Suc 19])"
      using on_schedule_regular_chain [of 19] by (simp add: example_params_fields)
    show "nHeight (regular_chain 19) + 1 < MultiAlgoForkHeight example_params"
      by (simp add: example_params_fields)
    show "nHeight (regular_chain 19) + 1 \<noteq> FirstTimespanChangeHeight example_params"
      by (simp add: example_params_fields)
    show "1800 = legacy_target_timespan (regular_chain 19) example_params"
      by (simp add: legacy_target_timespan_def example_params_fields)
    show "(0::int) < 1800" "(1800::int) < 2 ^ 32" by simp_all
    show "0 < nPowTargetSpacing example_params" "nPowTargetSpacing example_params dvd 1800"
      by (simp_all add: example_params_fields)
    show "(nHeight (regular_chain 19) + 1) mod (1800 div nPowTargetSpacing example_params) = 0"
      by (simp add: example_params_fields)
    show "nHeight (regular_chain 19) + 1 \<noteq> 1800 div nPowTargetSpacing example_params"
      by (simp add: example_params_fields)
    show "GetCompact (fst (SetCompact (nBits (regular_chain 19)))) = nBits (regular_chain 19)"
      unfolding v by (simp add: GetCompact_example)
    show "fst (SetCompact (nBits (regular_chain 19))) \<le> UintToArith256 (powLimit example_params)"
      unfolding v example_limit by (simp add: example_target_def)
    show "needs_shift (fst (SetCompact (nBits (regular_chain 19))))
            (UintToArith256 (powLimit example_params))
          \<longrightarrow> even (fst (SetCompact (nBits (regular_chain 19))))"
      unfolding v by (simp add: example_target_def)
    show "unat (fst (SetCompact (nBits (regular_chain 19)))) * nat 1800 < 2 ^ 256"
      unfolding v by (simp add: example_target_def)
  qed
  then show ?thesis by simp
qed

section \<open>Multi-algorithm retarget: dampening and per-algorithm steps\<close>

subsection \<open>From the entry point to the retarget\<close>

lemma GetNextMultiAlgoWorkRequired_found:
  assumes "GetLastBlockIndexForAlgo idx (Some l) params (GetAlgo ac vc pblock)
             (multi_algo_target_spacing (idx l) params) = Some (Some p)"
    and "walk_back idx (Some l) (averaging_window (idx l) params) = Some f"
  shows "GetNextMultiAlgoWorkRequired ac vc idx u l pblock params
           = Some (multi_algo_retarget params u (multi_algo_target_spacing (idx l) params)
                     (idx l) (idx f) (idx p))"
  using assms by (simp add: GetNextMultiAlgoWorkRequired_def Let_def)

lemma multi_algo_retarget_dampened:
  assumes "dampen params (nHeight pindexLast) sp u
             (nMedianTimePast pindexLast - nMedianTimePast pindexFirst) = (a, avg)"
  shows "multi_algo_retarget params u sp pindexLast pindexFirst pindexPrevAlgo
           = retarget_with_timespan params pindexLast pindexPrevAlgo a avg"
  using assms by (simp add: multi_algo_retarget_def Let_def)

lemma dampen_cases:
  "height < DifficultyChangeForkHeight params \<Longrightarrow> 222524 \<le> height \<Longrightarrow>
     dampen params height sp u actual
       = (u + cdiv (actual - u) 4, nMultiAlgoAveragingInterval params * sp)"
  "height < DifficultyChangeForkHeight params \<Longrightarrow> height < 222524 \<Longrightarrow>
     dampen params height sp u actual
       = (documented_dampening (nMultiAlgoAveragingInterval params * sp) actual,
          nMultiAlgoAveragingInterval params * sp)"
  by (simp_all add: dampen_def documented_dampening_def Let_def)

lemma make_harder_zero_divisor:
  assumes "(word_of_int (100 + adj) :: arith_uint256) = 0" and "0 < n"
  shows "make_harder n adj bn = Inl DivisionByZero"
proof -
  obtain m where "n = Suc m" using assms(2) by (cases n) auto
  then show ?thesis using assms(1) by (simp add: div_scalar_def)
qed

lemma per_algo_retarget_funpow:
  "0 < n \<Longrightarrow> per_algo_retarget params n bn
     = (if (word_of_int (100 + nMultiAlgoLocalTargetAdjustment params) :: arith_uint256) = 0
        then Inl DivisionByZero
        else Inr ((harder_step (nMultiAlgoLocalTargetAdjustment params) ^^ nat n) bn))"
  "n < 0 \<Longrightarrow> per_algo_retarget params n bn
     = Inr ((easier_step (nMultiAlgoLocalTargetAdjustment params) ^^ nat (- n)) bn)"
  by (simp_all add: per_algo_retarget_def make_harder_funpow make_easier_funpow
        make_harder_zero_divisor)

lemma per_algo_retarget_zero: "per_algo_retarget params 0 bn = Inr bn"
  by (simp add: per_algo_retarget_def)

lemma retarget_with_timespan_steps:
  assumes "global_retarget params pindexPrevAlgo
             (limit_timespan params (DifficultyChangeForkHeight params \<le> nHeight pindexLast) avg a)
             avg = Inr (fShift, g)"
  shows "0 < nHeight pindexPrevAlgo + NUM_ALGOS - 1 - nHeight pindexLast \<Longrightarrow>
           retarget_with_timespan params pindexLast pindexPrevAlgo a avg
             = (if (word_of_int (100 + nMultiAlgoLocalTargetAdjustment params) :: arith_uint256) = 0
                then Inl DivisionByZero
                else Inr (finish_retarget params fShift
                       ((harder_step (nMultiAlgoLocalTargetAdjustment params)
                           ^^ nat (nHeight pindexPrevAlgo + NUM_ALGOS - 1 - nHeight pindexLast)) g)))"
    and "nHeight pindexPrevAlgo + NUM_ALGOS - 1 - nHeight pindexLast < 0 \<Longrightarrow>
           retarget_with_timespan params pindexLast pindexPrevAlgo a avg
             = Inr (finish_retarget params fShift
                       ((easier_step (nMultiAlgoLocalTargetAdjustment params)
                           ^^ nat (- (nHeight pindexPrevAlgo + NUM_ALGOS - 1 - nHeight pindexLast))) g))"
    and "nHeight pindexPrevAlgo + NUM_ALGOS - 1 - nHeight pindexLast = 0 \<Longrightarrow>
           retarget_with_timespan params pindexLast pindexPrevAlgo a avg
             = Inr (finish_retarget params fShift g)"
  using assms
  by (simp_all add: retarget_with_timespan_def Let_def per_algo_retarget_funpow
        per_algo_retarget_zero)


subsection \<open>The six-block example chain\<close>

lemma multi_chain_path:
  "chain_path (multi_chain base) (Some 7) [7, 6, 5, 4, 3, 2, 1, 0]"
proof -
  have p0: "chain_path (multi_chain base) (Some 0) [0]"
    by (rule chain_step [OF _ chain_root]) (simp add: multi_chain_def)
  have p1: "chain_path (multi_chain base) (Some 1) [1, 0]"
    by (rule chain_step [OF _ p0]) (simp add: multi_chain_def)
  have p2: "chain_path (multi_chain base) (Some 2) [2, 1, 0]"
    by (rule chain_step [OF _ p1]) (simp add: multi_chain_def)
  have p3: "chain_path (multi_chain base) (Some 3) [3, 2, 1, 0]"
    by (rule chain_step [OF _ p2]) (simp add: multi_chain_def)
  have p4: "chain_path (multi_chain base) (Some 4) [4, 3, 2, 1, 0]"
    by (rule chain_step [OF _ p3]) (simp add: multi_chain_def)
  have p5: "chain_path (multi_chain base) (Some 5) [5, 4, 3, 2, 1, 0]"
    by (rule chain_step [OF _ p4]) (simp add: multi_chain_def)
  have p6: "chain_path (multi_chain base) (Some 6) [6, 5, 4, 3, 2, 1, 0]"
    by (rule chain_step [OF _ p5]) (simp add: multi_chain_def)
  show ?thesis
    by (rule chain_step [OF _ p6]) (simp add: multi_chain_def)
qed

lemma multi_params_fields:
  "DifficultyChangeForkHeight multi_params = 2000000"
  "MultiAlgoTimespanForkHeight multi_params = 3000000"
  "fPowAllowMinDifficultyBlocks multi_params = False"
  "nMultiAlgoNum multi_params = 5"
  "nMultiAlgoTimespan multi_params = 180"
  "nMultiAlgoAveragingInterval multi_params = 1"
  "nMultiAlgoMaxAdjustUp multi_params = 20"
  "nMultiAlgoMaxAdjustDown multi_params = 40"
  "nMultiAlgoLocalTargetAdjustment multi_params = 4"
  "powLimit multi_params = powLimit example_params"
  by (simp_all add: multi_params_def example_params_def)

lemma multi_chain_fields:
  "nHeight (multi_chain base a) = base + int a"
  "nMedianTimePast (multi_chain base a) = 1000 + 180 * int a"
  "nBits (multi_chain base 2) = 0x02006400"
  "nBits (multi_chain base 3) = 0x1e0ffff0"
  "nBits (multi_chain base 5) = 0x01030000"
  by (simp_all add: multi_chain_def)

lemma example_headers:
  "GetAlgo example_algo_codes example_version_codes scrypt_header = 1"
  "GetAlgo example_algo_codes example_version_codes groestl_header = 2"
  "GetAlgo example_algo_codes example_version_codes skein_header = 3"
  by (simp_all add: GetAlgo_def scrypt_header_def groestl_header_def skein_header_def
        example_algo_codes_def example_version_codes_def)

lemma multi_chain_spacing:
  "base + 7 < 3000000 \<Longrightarrow> multi_algo_target_spacing (multi_chain base 7) multi_params = 900"
  by (simp add: multi_algo_target_spacing_def multi_chain_fields multi_params_fields)

lemma multi_chain_window:
  "base + 7 < 2000000 \<Longrightarrow>
     walk_back (multi_chain base) (Some 7) (averaging_window (multi_chain base 7) multi_params)
       = Some 2"
proof -
  assume "base + 7 < 2000000"
  then have "averaging_window (multi_chain base 7) multi_params = 5"
    by (simp add: averaging_window_def multi_chain_fields multi_params_fields NUM_ALGOS_def)
  moreover have "walk_back (multi_chain base) (Some 7) 5 = Some 2"
    using walk_back_nth [OF multi_chain_path, of 5 base] by simp
  ultimately show ?thesis by simp
qed

lemma multi_chain_last_block:
  "GetLastBlockIndexForAlgo (multi_chain base) (Some 7) multi_params 1 sp = Some (Some 3)"
  "GetLastBlockIndexForAlgo (multi_chain base) (Some 7) multi_params 2 sp = Some (Some 5)"
  "GetLastBlockIndexForAlgo (multi_chain base) (Some 7) multi_params 3 sp = Some (Some 2)"
  unfolding GetLastBlockIndexForAlgo_find [OF multi_chain_path]
  by (simp_all add: eligible_def min_difficulty_gap_def multi_params_fields multi_chain_def)

subsection \<open>Evaluation on the example chain\<close>

lemma global_retarget_eval:
  assumes "SetCompact (nBits pindexPrevAlgo) = (v, fNegative, fOverflow)"
    and "needs_shift v (UintToArith256 (powLimit params)) = sh"
    and "div_scalar (mul_scalar (if sh then drop_bit 1 v else v) a) avg = Inr r"
  shows "global_retarget params pindexPrevAlgo a avg = Inr (sh, r)"
  using assms by (simp add: global_retarget_def Let_def)

lemma multi_limit: "UintToArith256 (powLimit multi_params) = 2 ^ 236 - 1"
  by (simp add: multi_params_fields example_limit)

lemma bits_example_limit: "bits (2 ^ 236 - 1) = 236"
  by (simp add: bits_def bits_nat.simps)

lemma limit_timespan_example:
  "limit_timespan multi_params False 900 900 = 900"
  "limit_timespan multi_params False 900 225 = 720"
  by (simp_all add: limit_timespan_def Let_def multi_params_fields cdiv_def)

lemma global_retarget_block_3:
  "global_retarget multi_params (multi_chain base 3) 900 900 = Inr (True, 524280 * 2 ^ 216)"
  "global_retarget multi_params (multi_chain base 3) 720 900 = Inr (True, 419424 * 2 ^ 216)"
proof -
  have s: "SetCompact (nBits (multi_chain base 3)) = (example_target, False, False)"
    by (simp only: multi_chain_fields SetCompact_example)
  have n: "needs_shift example_target (UintToArith256 (powLimit multi_params)) = True"
    using needs_shift_example by (simp add: multi_params_fields)
  have "div_scalar (mul_scalar (if True then drop_bit 1 example_target else example_target) 900) 900
          = Inr (524280 * 2 ^ 216)"
    by (simp add: div_scalar_def mul_scalar_def drop_bit_eq_div example_target_def)
  from global_retarget_eval [OF s n this]
  show "global_retarget multi_params (multi_chain base 3) 900 900 = Inr (True, 524280 * 2 ^ 216)" .
  have "div_scalar (mul_scalar (if True then drop_bit 1 example_target else example_target) 720) 900
          = Inr (419424 * 2 ^ 216)"
    by (simp add: div_scalar_def mul_scalar_def drop_bit_eq_div example_target_def)
  from global_retarget_eval [OF s n this]
  show "global_retarget multi_params (multi_chain base 3) 720 900 = Inr (True, 419424 * 2 ^ 216)" .
qed

lemma needs_shift_small:
  "needs_shift 3 (UintToArith256 (powLimit multi_params)) = False"
  "needs_shift 100 (UintToArith256 (powLimit multi_params)) = False"
proof -
  have "bits 3 = 2" "bits 100 = 7" by (simp_all add: bits_def bits_nat.simps)
  then show "needs_shift 3 (UintToArith256 (powLimit multi_params)) = False"
    "needs_shift 100 (UintToArith256 (powLimit multi_params)) = False"
    unfolding multi_limit needs_shift_def bits_example_limit by simp_all
qed


lemma global_retarget_block_2:
  "global_retarget multi_params (multi_chain base 2) 900 900 = Inr (False, 100)"
proof -
  have s: "SetCompact (nBits (multi_chain base 2)) = (100, False, False)"
    unfolding multi_chain_fields by (simp add: SetCompact_def)
  have "div_scalar (mul_scalar (if False then drop_bit 1 100 else 100) 900) 900 = Inr 100"
    by (simp add: div_scalar_def mul_scalar_def)
  from global_retarget_eval [OF s needs_shift_small(2) this] show ?thesis .
qed

lemma finish_retarget_eval:
  assumes "(if fShift then push_bit 1 b else b) = c"
    and "\<not> c > UintToArith256 (powLimit params)"
    and "GetCompact c = r"
  shows "finish_retarget params fShift b = r"
  using assms by (simp add: finish_retarget_def Let_def)

lemma finish_retarget_example:
  "finish_retarget multi_params True (524280 * 2 ^ 216) = 0x1e0ffff0"
  "finish_retarget multi_params True (419424 * 2 ^ 216) = 0x1e0cccc0"
  "finish_retarget multi_params False 1 = 0x01010000"
  "finish_retarget multi_params False 2 = 0x01020000"
  "finish_retarget multi_params False 104 = 0x01680000"
proof -
  show "finish_retarget multi_params True (524280 * 2 ^ 216) = 0x1e0ffff0"
  proof (rule finish_retarget_eval [where c = example_target])
    show "(if True then push_bit 1 (524280 * 2 ^ 216) else 524280 * 2 ^ 216) = example_target"
      by (simp add: push_bit_eq_mult example_target_def)
    show "\<not> example_target > UintToArith256 (powLimit multi_params)"
      unfolding multi_limit by (simp add: example_target_def)
    show "GetCompact example_target = 0x1e0ffff0" by (rule GetCompact_example)
  qed
  show "finish_retarget multi_params True (419424 * 2 ^ 216) = 0x1e0cccc0"
  proof (rule finish_retarget_eval [where c = "838848 * 2 ^ 216"])
    show "(if True then push_bit 1 (419424 * 2 ^ 216) else 419424 * 2 ^ 216) = 838848 * 2 ^ 216"
      by (simp add: push_bit_eq_mult)
    show "\<not> 838848 * 2 ^ 216 > UintToArith256 (powLimit multi_params)"
      unfolding multi_limit by simp
    show "GetCompact (838848 * 2 ^ 216) = 0x1e0cccc0"
      by (simp add: GetCompact_def bits_def bits_nat.simps)
  qed
  show "finish_retarget multi_params False 1 = 0x01010000"
  proof (rule finish_retarget_eval [where c = 1])
    show "(if False then push_bit 1 1 else 1) = (1 :: arith_uint256)" by simp
    show "\<not> 1 > UintToArith256 (powLimit multi_params)"
      unfolding multi_limit by simp
    show "GetCompact 1 = 0x01010000"
      by (simp add: GetCompact_def bits_def bits_nat.simps)
  qed
  show "finish_retarget multi_params False 2 = 0x01020000"
  proof (rule finish_retarget_eval [where c = 2])
    show "(if False then push_bit 1 2 else 2) = (2 :: arith_uint256)" by simp
    show "\<not> 2 > UintToArith256 (powLimit multi_params)"
      unfolding multi_limit by simp
    show "GetCompact 2 = 0x01020000"
      by (simp add: GetCompact_def bits_def bits_nat.simps)
  qed
  show "finish_retarget multi_params False 104 = 0x01680000"
  proof (rule finish_retarget_eval [where c = 104])
    show "(if False then push_bit 1 104 else 104) = (104 :: arith_uint256)" by simp
    show "\<not> 104 > UintToArith256 (powLimit multi_params)"
      unfolding multi_limit by simp
    show "GetCompact 104 = 0x01680000"
      by (simp add: GetCompact_def bits_def bits_nat.simps)
  qed
qed


lemma example_entry:
  assumes "base + 7 < 2000000"
  shows "GetNextMultiAlgoWorkRequired example_algo_codes example_version_codes (multi_chain base) u 7
             scrypt_header multi_params
           = Some (multi_algo_retarget multi_params u 900 (multi_chain base 7) (multi_chain base 2)
                     (multi_chain base 3))"
    and "GetNextMultiAlgoWorkRequired example_algo_codes example_version_codes (multi_chain base) u 7
             groestl_header multi_params
           = Some (multi_algo_retarget multi_params u 900 (multi_chain base 7) (multi_chain base 2)
                     (multi_chain base 5))"
    and "GetNextMultiAlgoWorkRequired example_algo_codes example_version_codes (multi_chain base) u 7
             skein_header multi_params
           = Some (multi_algo_retarget multi_params u 900 (multi_chain base 7) (multi_chain base 2)
                     (multi_chain base 2))"
proof -
  have sp: "multi_algo_target_spacing (multi_chain base 7) multi_params = 900"
    using assms by (simp add: multi_chain_spacing)
  have w: "walk_back (multi_chain base) (Some 7) (averaging_window (multi_chain base 7) multi_params)
       = Some 2"
    using assms by (rule multi_chain_window)
  show "GetNextMultiAlgoWorkRequired example_algo_codes example_version_codes (multi_chain base) u 7
             scrypt_header multi_params
           = Some (multi_algo_retarget multi_params u 900 (multi_chain base 7) (multi_chain base 2)
                     (multi_chain base 3))"
    using GetNextMultiAlgoWorkRequired_found [of "multi_chain base" 7 multi_params
        example_algo_codes example_version_codes scrypt_header 3 2 u] w
    unfolding sp example_headers multi_chain_last_block by simp
  show "GetNextMultiAlgoWorkRequired example_algo_codes example_version_codes (multi_chain base) u 7
             groestl_header multi_params
           = Some (multi_algo_retarget multi_params u 900 (multi_chain base 7) (multi_chain base 2)
                     (multi_chain base 5))"
    using GetNextMultiAlgoWorkRequired_found [of "multi_chain base" 7 multi_params
        example_algo_codes example_version_codes groestl_header 5 2 u] w
    unfolding sp example_headers multi_chain_last_block by simp
  show "GetNextMultiAlgoWorkRequired example_algo_codes example_version_codes (multi_chain base) u 7
             skein_header multi_params
           = Some (multi_algo_retarget multi_params u 900 (multi_chain base 7) (multi_chain base 2)
                     (multi_chain base 2))"
    using GetNextMultiAlgoWorkRequired_found [of "multi_chain base" 7 multi_params
        example_algo_codes example_version_codes skein_header 2 2 u] w
    unfolding sp example_headers multi_chain_last_block by simp
qed

lemma example_dampen:
  "dampen multi_params (nHeight (multi_chain 0 7)) 900 u
     (nMedianTimePast (multi_chain 0 7) - nMedianTimePast (multi_chain 0 2)) = (900, 900)"
  "dampen multi_params (nHeight (multi_chain 300000 7)) 900 0
     (nMedianTimePast (multi_chain 300000 7) - nMedianTimePast (multi_chain 300000 2)) = (225, 900)"
  by (simp_all add: dampen_def Let_def multi_chain_fields multi_params_fields cdiv_def)

lemma example_limited:
  "limit_timespan multi_params (DifficultyChangeForkHeight multi_params \<le> nHeight (multi_chain 0 7))
     900 900 = 900"
  "limit_timespan multi_params
     (DifficultyChangeForkHeight multi_params \<le> nHeight (multi_chain 300000 7)) 900 225 = 720"
  by (simp_all add: multi_chain_fields multi_params_fields limit_timespan_example)

lemma example_adjustments:
  "nHeight (multi_chain base 3) + NUM_ALGOS - 1 - nHeight (multi_chain base 7) = 0"
  "nHeight (multi_chain base 5) + NUM_ALGOS - 1 - nHeight (multi_chain base 7) = 2"
  "nHeight (multi_chain base 2) + NUM_ALGOS - 1 - nHeight (multi_chain base 7) = - 1"
  by (simp_all add: multi_chain_fields NUM_ALGOS_def)

text \<open>The retarget for the first algorithm (no per-algorithm step) at both tip heights.\<close>

lemma example_retarget_scrypt:
  "retarget_with_timespan multi_params (multi_chain 0 7) (multi_chain 0 3) 900 900
     = Inr 0x1e0ffff0"
  "retarget_with_timespan multi_params (multi_chain 0 7) (multi_chain 0 3) 225 900
     = Inr 0x1e0cccc0"
  "retarget_with_timespan multi_params (multi_chain 300000 7) (multi_chain 300000 3) 225 900
     = Inr 0x1e0cccc0"
proof -
  have l: "limit_timespan multi_params
     (DifficultyChangeForkHeight multi_params \<le> nHeight (multi_chain 0 7)) 900 225 = 720"
    by (simp add: multi_chain_fields multi_params_fields limit_timespan_example)
  show "retarget_with_timespan multi_params (multi_chain 0 7) (multi_chain 0 3) 900 900
     = Inr 0x1e0ffff0"
    using retarget_with_timespan_steps(3) [of multi_params "multi_chain 0 3" "multi_chain 0 7"
        900 900 True "524280 * 2 ^ 216"]
    unfolding example_limited example_adjustments global_retarget_block_3 finish_retarget_example
    by simp
  show "retarget_with_timespan multi_params (multi_chain 0 7) (multi_chain 0 3) 225 900
     = Inr 0x1e0cccc0"
    using retarget_with_timespan_steps(3) [of multi_params "multi_chain 0 3" "multi_chain 0 7"
        900 225 True "419424 * 2 ^ 216"]
    unfolding l example_adjustments global_retarget_block_3 finish_retarget_example
    by simp
  show "retarget_with_timespan multi_params (multi_chain 300000 7) (multi_chain 300000 3) 225 900
     = Inr 0x1e0cccc0"
    using retarget_with_timespan_steps(3) [of multi_params "multi_chain 300000 3"
        "multi_chain 300000 7" 900 225 True "419424 * 2 ^ 216"]
    unfolding example_limited example_adjustments global_retarget_block_3 finish_retarget_example
    by simp
qed


text \<open>
  Claim C2, amended. Take a call of the multi-algorithm retarget that finds the previous
  block \<open>p\<close> of the candidate's algorithm and the first block \<open>f\<close> of the averaging
  window. If the tip height is below the difficulty-change fork height and at or above
  222524, the dampened timespan with which the retarget goes on is computed from the value
  \<open>u\<close> that the variable \<^verbatim>\<open>nMultiAlgoAveragingTargetTimespan\<close> holds before its first
  assignment, \<open>u + (actual - u) / 4\<close>, and the variable is assigned only afterwards. If the
  tip height is below the difficulty-change fork height and below 222524, the variable is
  assigned first and the dampened timespan is the one of the documented formula. Here
  \<open>actual\<close> is the difference of the median times of the tip and of \<open>f\<close>, and the rest of
  the call is \<open>retarget_with_timespan\<close> (lines 134-176).
\<close>

theorem dampening_by_tip_height:
  assumes found: "GetLastBlockIndexForAlgo idx (Some l) params (GetAlgo ac vc pblock)
             (multi_algo_target_spacing (idx l) params) = Some (Some p)"
    and window: "walk_back idx (Some l) (averaging_window (idx l) params) = Some f"
  shows "(nHeight (idx l) < DifficultyChangeForkHeight params \<and> 222524 \<le> nHeight (idx l) \<longrightarrow>
            GetNextMultiAlgoWorkRequired ac vc idx u l pblock params
              = Some (retarget_with_timespan params (idx l) (idx p)
                  (u + cdiv (nMedianTimePast (idx l) - nMedianTimePast (idx f) - u) 4)
                  (nMultiAlgoAveragingInterval params * multi_algo_target_spacing (idx l) params))
          \<and> multi_algo_retarget params u (multi_algo_target_spacing (idx l) params)
                (idx l) (idx f) (idx p)
              = retarget_with_timespan params (idx l) (idx p)
                  (u + cdiv (nMedianTimePast (idx l) - nMedianTimePast (idx f) - u) 4)
                  (nMultiAlgoAveragingInterval params * multi_algo_target_spacing (idx l) params))
       \<and> (nHeight (idx l) < DifficultyChangeForkHeight params \<and> nHeight (idx l) < 222524 \<longrightarrow>
            GetNextMultiAlgoWorkRequired ac vc idx u l pblock params
              = Some (retarget_with_timespan params (idx l) (idx p)
                  (documented_dampening
                     (nMultiAlgoAveragingInterval params * multi_algo_target_spacing (idx l) params)
                     (nMedianTimePast (idx l) - nMedianTimePast (idx f)))
                  (nMultiAlgoAveragingInterval params * multi_algo_target_spacing (idx l) params))
          \<and> multi_algo_retarget params u (multi_algo_target_spacing (idx l) params)
                (idx l) (idx f) (idx p)
              = retarget_with_timespan params (idx l) (idx p)
                  (documented_dampening
                     (nMultiAlgoAveragingInterval params * multi_algo_target_spacing (idx l) params)
                     (nMedianTimePast (idx l) - nMedianTimePast (idx f)))
                  (nMultiAlgoAveragingInterval params * multi_algo_target_spacing (idx l) params))"
  unfolding GetNextMultiAlgoWorkRequired_found [OF found window]
  by (auto simp: multi_algo_retarget_dampened dampen_cases)

text \<open>
  On the eight-block chain with unassigned value 0: at tip height 300007 the dampened
  timespan is 225, limited to 720, and the target falls to \<open>0x1e0cccc0\<close>; at tip height 7
  the dampened timespan is 900 and the target stays at \<open>0x1e0ffff0\<close>.
\<close>

theorem dampening_by_tip_height_witness:
  "GetNextMultiAlgoWorkRequired example_algo_codes example_version_codes (multi_chain 300000) 0 7
      scrypt_header multi_params = Some (Inr 0x1e0cccc0)
   \<and> GetNextMultiAlgoWorkRequired example_algo_codes example_version_codes (multi_chain 0) 0 7
      scrypt_header multi_params = Some (Inr 0x1e0ffff0)"
proof -
  have sp: "multi_algo_target_spacing (multi_chain base 7) multi_params = 900"
    if "base + 7 < 3000000" for base
    using that by (rule multi_chain_spacing)
  have found: "GetLastBlockIndexForAlgo (multi_chain base) (Some 7) multi_params
      (GetAlgo example_algo_codes example_version_codes scrypt_header)
      (multi_algo_target_spacing (multi_chain base 7) multi_params) = Some (Some 3)" for base
    unfolding example_headers by (rule multi_chain_last_block)
  have w1: "walk_back (multi_chain 300000) (Some 7)
      (averaging_window (multi_chain 300000 7) multi_params) = Some 2"
    by (rule multi_chain_window) simp
  have w0: "walk_back (multi_chain 0) (Some 7)
      (averaging_window (multi_chain 0 7) multi_params) = Some 2"
    by (rule multi_chain_window) simp
  have d: "nMedianTimePast (multi_chain base 7) - nMedianTimePast (multi_chain base 2) = 900" for base
    by (simp add: multi_chain_fields)
  have q: "(0::int) + cdiv (900 - 0) 4 = 225" "documented_dampening (1 * 900) 900 = 900"
    by (simp_all add: cdiv_def documented_dampening_def)
  have "GetNextMultiAlgoWorkRequired example_algo_codes example_version_codes (multi_chain 300000) 0 7
      scrypt_header multi_params = Some (Inr 0x1e0cccc0)"
    using dampening_by_tip_height [OF found w1, of 0]
    unfolding d sp [of 300000, simplified] multi_params_fields q
    by (simp add: multi_chain_fields example_retarget_scrypt)
  moreover have "GetNextMultiAlgoWorkRequired example_algo_codes example_version_codes (multi_chain 0) 0 7
      scrypt_header multi_params = Some (Inr 0x1e0ffff0)"
    using dampening_by_tip_height [OF found w0, of 0]
    unfolding d sp [of 0, simplified] multi_params_fields q
    by (simp add: multi_chain_fields example_retarget_scrypt)
  ultimately show ?thesis by blast
qed

text \<open>
  Claim C2 as stated fails: at tip height 7, below the difficulty-change fork height
  2000000 and below 222524, the call does not go on with the timespan dampened by the
  unassigned value (here 0), which would give \<open>0x1e0cccc0\<close>; it returns \<open>0x1e0ffff0\<close>, the
  result of the documented formula.
\<close>

theorem dampening_below_222524_counterexample:
  "\<not> (nHeight (multi_chain 0 7) < DifficultyChangeForkHeight multi_params
        \<and> nHeight (multi_chain 0 7) < 222524
      \<longrightarrow> GetNextMultiAlgoWorkRequired example_algo_codes example_version_codes (multi_chain 0) 0 7
            scrypt_header multi_params
          = Some (retarget_with_timespan multi_params (multi_chain 0 7) (multi_chain 0 3)
               (0 + cdiv (nMedianTimePast (multi_chain 0 7) - nMedianTimePast (multi_chain 0 2) - 0) 4)
               (nMultiAlgoAveragingInterval multi_params
                  * multi_algo_target_spacing (multi_chain 0 7) multi_params)))"
proof -
  have e: "GetNextMultiAlgoWorkRequired example_algo_codes example_version_codes (multi_chain 0) 0 7
            scrypt_header multi_params = Some (Inr 0x1e0ffff0)"
    unfolding example_entry(1) [of 0 0, simplified]
      multi_algo_retarget_dampened [OF example_dampen(1)] example_retarget_scrypt ..
  have d: "nMedianTimePast (multi_chain 0 7) - nMedianTimePast (multi_chain 0 2) = 900"
    by (simp add: multi_chain_fields)
  have q: "(0::int) + cdiv (900 - 0) 4 = 225"
    by (simp add: cdiv_def)
  have s: "nMultiAlgoAveragingInterval multi_params
                  * multi_algo_target_spacing (multi_chain 0 7) multi_params = 900"
    by (simp add: multi_chain_spacing multi_params_fields)
  have h: "nHeight (multi_chain 0 7) < DifficultyChangeForkHeight multi_params"
    "nHeight (multi_chain 0 7) < 222524"
    by (simp_all add: multi_chain_fields multi_params_fields)
  show ?thesis
    unfolding e d q s example_retarget_scrypt using h by simp
qed

lemma example_retarget_skein:
  "retarget_with_timespan multi_params (multi_chain 0 7) (multi_chain 0 2) 900 900
     = Inr 0x01680000"
proof -
  have "nat (- (- 1)) = Suc 0" by simp
  then have h: "(easier_step (nMultiAlgoLocalTargetAdjustment multi_params) ^^ nat (- (- 1))) 100 = 104"
    unfolding multi_params_fields by (simp add: easier_step_def)
  show ?thesis
    using retarget_with_timespan_steps(2) [of multi_params "multi_chain 0 2" "multi_chain 0 7"
        900 900 False 100]
    unfolding example_limited example_adjustments global_retarget_block_2 h finish_retarget_example
    by simp
qed



end
